theory Spec2Isabelle
  imports Main "HOL-Library.Sublist"
begin

section \<open>The data of main.go\<close>

text \<open>
  \<^verbatim>\<open>time.Time\<close> is an instant, read here as a count of nanoseconds; \<^verbatim>\<open>datatypes.JSON\<close>
  is the byte string of a JSON document. A Go \<^verbatim>\<open>map[string]string\<close> is a partial map,
  and \<open>None\<close> is the nil map of a payload that leaves the field out.
\<close>

type_synonym time_Time = int
type_synonym datatypes_JSON = string
type_synonym string_map = "(string \<rightharpoonup> string) option"

text \<open>The struct \<^verbatim>\<open>Alert\<close>: one row of the table \<^verbatim>\<open>alerts\<close>.\<close>

record Alert =
  ID :: nat
  Fingerprint :: string
  Status :: string
  Labels :: datatypes_JSON
  Annotations :: datatypes_JSON
  StartsAt :: time_Time
  EndsAt :: time_Time
  CreatedAt :: time_Time

text \<open>
  One element of \<^verbatim>\<open>AlertWebhook.Alerts\<close>; the fields carry the names of their JSON tags.
\<close>

record webhook_alert =
  status :: string
  labels :: string_map
  annotations :: string_map
  startsAt :: time_Time
  endsAt :: time_Time
  fingerprint :: string

record AlertWebhook =
  alerts :: "webhook_alert list"

text \<open>
  What \<^verbatim>\<open>c.JSON(code, gin.H{...})\<close> writes: the status code and the one-entry object,
  \<^verbatim>\<open>{"error": msg}\<close> or \<^verbatim>\<open>{"status": msg}\<close>.
\<close>

datatype gin_H = H_error string | H_status string

type_synonym response = "nat \<times> gin_H"

definition StatusOK :: nat where "StatusOK = 200"
definition StatusBadRequest :: nat where "StatusBadRequest = 400"
definition StatusInternalServerError :: nat where "StatusInternalServerError = 500"

section \<open>The world the handler runs in\<close>

text \<open>
  The handler talks to PostgreSQL through gorm, reads the wall clock and bumps four
  process-wide Prometheus counters. All of it is one state, passed explicitly.

  Every call to the database takes one step of \<open>script\<close>, which says what the
  surroundings do at that call: nothing (\<open>Healthy\<close>), make the call fail with a message
  and without effect (\<open>Broken\<close>), or let another connection commit the insert of a row
  just before the call runs (\<open>Raced\<close>). An exhausted script is healthy.
  \<open>clock\<close> gives the reading of the \<open>n\<close>-th call of \<^verbatim>\<open>time.Now()\<close>.
  The counters hold counts (the float64 of a Prometheus counter is exact on them
  below \<open>2^53\<close>), so they are natural numbers.
\<close>

datatype db_step = Healthy | Broken string | Raced Alert

record world =
  rows :: "Alert list"
  next_id :: nat
  script :: "db_step list"
  clock :: "nat \<Rightarrow> time_Time"
  ticks :: nat
  irmWebhooksAlertmanagerTotal :: nat
  irmWebhooksAlertmanagerNewTotal :: nat
  irmWebhooksAlertmanagerDuplicateTotal :: nat
  irmWebhooksAlertmanagerUpdatedTotal :: nat

definition next_step :: "world \<Rightarrow> db_step \<times> world" where
  "next_step w =
     (case script w of
        [] \<Rightarrow> (Healthy, w)
      | s # ss \<Rightarrow> (s, w\<lparr>script := ss\<rparr>))"

definition duplicate_key :: string where
  "duplicate_key = ''ERROR: duplicate key value violates unique constraint (SQLSTATE 23505)''"

text \<open>
  An INSERT into \<^verbatim>\<open>alerts\<close>. The column \<^verbatim>\<open>fingerprint\<close> carries a unique index
  (\<^verbatim>\<open>gorm:"uniqueIndex"\<close>), so a row whose fingerprint is present is refused. The primary
  key comes from the table's sequence, which moves on also when the row is refused.
\<close>

definition insert_row :: "Alert \<Rightarrow> world \<Rightarrow> string option \<times> world" where
  "insert_row r w =
     (if Fingerprint r \<in> set (map Fingerprint (rows w))
      then (Some duplicate_key, w\<lparr>next_id := Suc (next_id w)\<rparr>)
      else (None, w\<lparr>rows := rows w @ [r\<lparr>ID := next_id w\<rparr>],
                     next_id := Suc (next_id w)\<rparr>))"

definition arrive :: "db_step \<Rightarrow> world \<Rightarrow> world" where
  "arrive s w = (case s of Raced r \<Rightarrow> snd (insert_row r w) | _ \<Rightarrow> w)"

text \<open>
  \<^verbatim>\<open>db.Where("fingerprint = ?", fp).First(&existing).Error\<close>: the first row with that
  fingerprint (the table is kept in primary-key order), \<^verbatim>\<open>gorm.ErrRecordNotFound\<close>
  when there is none, or another error.
\<close>

datatype first_result = Found Alert | ErrRecordNotFound | OtherError string

definition db_first :: "world \<Rightarrow> string \<Rightarrow> first_result \<times> world" where
  "db_first w fp =
     (case next_step w of (s, w1) \<Rightarrow>
        (case s of
           Broken e \<Rightarrow> (OtherError e, w1)
         | _ \<Rightarrow>
            (case find (\<lambda>r. Fingerprint r = fp) (rows (arrive s w1)) of
               None \<Rightarrow> (ErrRecordNotFound, arrive s w1)
             | Some r \<Rightarrow> (Found r, arrive s w1))))"

text \<open>\<^verbatim>\<open>db.Create(&newAlert).Error\<close>.\<close>

definition db_create :: "world \<Rightarrow> Alert \<Rightarrow> string option \<times> world" where
  "db_create w r =
     (case next_step w of (s, w1) \<Rightarrow>
        (case s of
           Broken e \<Rightarrow> (Some e, w1)
         | _ \<Rightarrow> insert_row r (arrive s w1)))"

text \<open>
  \<^verbatim>\<open>db.Model(&existing).Select("Status", "EndsAt").Updates(Alert{Status: st, EndsAt: en}).Error\<close>:
  an UPDATE of exactly the two selected columns, zero values included, on the row whose
  primary key is that of \<open>existing\<close>.
\<close>

definition db_updates :: "world \<Rightarrow> Alert \<Rightarrow> string \<Rightarrow> time_Time \<Rightarrow> string option \<times> world" where
  "db_updates w existing st en =
     (case next_step w of (s, w1) \<Rightarrow>
        (case s of
           Broken e \<Rightarrow> (Some e, w1)
         | _ \<Rightarrow>
            (None, (arrive s w1)\<lparr>rows :=
               map (\<lambda>r. if ID r = ID existing then r\<lparr>Status := st, EndsAt := en\<rparr> else r)
                   (rows (arrive s w1))\<rparr>)))"

definition time_Now :: "world \<Rightarrow> time_Time \<times> world" where
  "time_Now w = (clock w (ticks w), w\<lparr>ticks := Suc (ticks w)\<rparr>)"

section \<open>The handler of POST /api/v1/webhooks/alertmanager\<close>

text \<open>
  \<^verbatim>\<open>json.Marshal\<close> is a parameter \<open>marshal\<close>: \<open>Inl\<close> is its error, \<open>Inr\<close> the document.
  The body of the loop returns the world and, when the source writes a response and
  returns from the handler, that response.
\<close>

type_synonym json_Marshal = "string_map \<Rightarrow> string + datatypes_JSON"

definition process_alert ::
  "json_Marshal \<Rightarrow> world \<Rightarrow> webhook_alert \<Rightarrow> world \<times> response option" where
  "process_alert marshal w alert =
     (case db_first w (fingerprint alert) of
        (OtherError err, w1) \<Rightarrow>
          (w1, Some (StatusInternalServerError, H_error err))
      | (ErrRecordNotFound, w1) \<Rightarrow>
          (case marshal (labels alert) of
             Inl err \<Rightarrow>
               (w1, Some (StatusInternalServerError, H_error ''failed to marshal labels''))
           | Inr labelsJSON \<Rightarrow>
               (case marshal (annotations alert) of
                  Inl err \<Rightarrow>
                    (w1, Some (StatusInternalServerError,
                               H_error ''failed to marshal annotations''))
                | Inr annotationsJSON \<Rightarrow>
                    (case time_Now w1 of (now, w2) \<Rightarrow>
                       (case db_create w2
                               \<lparr>ID = 0,
                                Fingerprint = fingerprint alert,
                                Status = status alert,
                                Labels = labelsJSON,
                                Annotations = annotationsJSON,
                                StartsAt = startsAt alert,
                                EndsAt = endsAt alert,
                                CreatedAt = now\<rparr> of
                          (Some err, w3) \<Rightarrow>
                            (w3, Some (StatusInternalServerError, H_error err))
                        | (None, w3) \<Rightarrow>
                            (w3\<lparr>irmWebhooksAlertmanagerNewTotal :=
                                  irmWebhooksAlertmanagerNewTotal w3 + 1\<rparr>, None)))))
      | (Found existing, w1) \<Rightarrow>
          (if Status existing \<noteq> status alert
           then (case db_updates w1 existing (status alert) (endsAt alert) of
                   (Some err, w2) \<Rightarrow>
                     (w2, Some (StatusInternalServerError, H_error err))
                 | (None, w2) \<Rightarrow>
                     (w2\<lparr>irmWebhooksAlertmanagerUpdatedTotal :=
                           irmWebhooksAlertmanagerUpdatedTotal w2 + 1\<rparr>, None))
           else (w1\<lparr>irmWebhooksAlertmanagerDuplicateTotal :=
                      irmWebhooksAlertmanagerDuplicateTotal w1 + 1\<rparr>, None)))"

text \<open>The loop \<^verbatim>\<open>for _, alert := range webhook.Alerts\<close>, left at the first response.\<close>

fun process_alerts ::
  "json_Marshal \<Rightarrow> world \<Rightarrow> webhook_alert list \<Rightarrow> world \<times> response option" where
  "process_alerts marshal w [] = (w, None)"
| "process_alerts marshal w (alert # rest) =
     (case process_alert marshal w alert of
        (w', Some resp) \<Rightarrow> (w', Some resp)
      | (w', None) \<Rightarrow> process_alerts marshal w' rest)"

text \<open>
  The handler. Its input is what \<^verbatim>\<open>c.ShouldBindJSON(&webhook)\<close> gives for the request
  body: \<open>Inl\<close> the binding error, \<open>Inr\<close> the decoded payload.
\<close>

definition handler ::
  "json_Marshal \<Rightarrow> world \<Rightarrow> string + AlertWebhook \<Rightarrow> world \<times> response" where
  "handler marshal w bound =
     (case bound of
        Inl err \<Rightarrow> (w, (StatusBadRequest, H_error err))
      | Inr webhook \<Rightarrow>
          (case process_alerts marshal
                  (w\<lparr>irmWebhooksAlertmanagerTotal :=
                       irmWebhooksAlertmanagerTotal w + length (alerts webhook)\<rparr>)
                  (alerts webhook) of
             (w', Some resp) \<Rightarrow> (w', resp)
           | (w', None) \<Rightarrow> (w', (StatusOK, H_status ''alerts processed''))))"

text \<open>The router serves one request after the other.\<close>

fun serve :: "json_Marshal \<Rightarrow> world \<Rightarrow> (string + AlertWebhook) list \<Rightarrow> world" where
  "serve marshal w [] = w"
| "serve marshal w (bound # rest) = serve marshal (fst (handler marshal w bound)) rest"

section \<open>Notions used by the properties\<close>

text \<open>
  The columns of a row that no statement of the handler assigns after the INSERT:
  everything but \<open>Status\<close> and \<open>EndsAt\<close>.
\<close>

definition immutable_columns ::
  "Alert \<Rightarrow> nat \<times> string \<times> datatypes_JSON \<times> datatypes_JSON \<times> time_Time \<times> time_Time" where
  "immutable_columns r =
     (ID r, Fingerprint r, Labels r, Annotations r, StartsAt r, CreatedAt r)"

text \<open>
  At most one row per fingerprint, and the relation between an earlier and a later table
  in which every earlier row is still there, at its place and with its immutable
  columns, possibly followed by new rows.
\<close>

definition unique_fingerprints :: "world \<Rightarrow> bool" where
  "unique_fingerprints w = distinct (map Fingerprint (rows w))"

definition rows_kept :: "world \<Rightarrow> world \<Rightarrow> bool" where
  "rows_kept w w' =
     prefix (map immutable_columns (rows w)) (map immutable_columns (rows w'))"

text \<open>
  A step of one event fails, in world \<open>w\<close>, with message \<open>msg\<close> and leaves world \<open>w'\<close>.
  The five ways, in terms of the calls the body of the loop makes: the lookup returns an
  error other than not-found; after a not-found lookup the labels do not serialize; the
  labels do and the annotations do not; both do and the insert of the new row returns an
  error; the lookup finds a row of another status and the update returns an error.
\<close>

definition step_fails ::
  "json_Marshal \<Rightarrow> world \<Rightarrow> webhook_alert \<Rightarrow> string \<Rightarrow> world \<Rightarrow> bool" where
  "step_fails marshal w alert msg w' \<longleftrightarrow>
     db_first w (fingerprint alert) = (OtherError msg, w')
   \<or> (db_first w (fingerprint alert) = (ErrRecordNotFound, w')
       \<and> (\<exists>err. marshal (labels alert) = Inl err)
       \<and> msg = ''failed to marshal labels'')
   \<or> (db_first w (fingerprint alert) = (ErrRecordNotFound, w')
       \<and> (\<exists>labelsJSON. marshal (labels alert) = Inr labelsJSON)
       \<and> (\<exists>err. marshal (annotations alert) = Inl err)
       \<and> msg = ''failed to marshal annotations'')
   \<or> (\<exists>w1 labelsJSON annotationsJSON.
         db_first w (fingerprint alert) = (ErrRecordNotFound, w1)
       \<and> marshal (labels alert) = Inr labelsJSON
       \<and> marshal (annotations alert) = Inr annotationsJSON
       \<and> db_create (snd (time_Now w1))
            \<lparr>ID = 0, Fingerprint = fingerprint alert, Status = status alert,
             Labels = labelsJSON, Annotations = annotationsJSON,
             StartsAt = startsAt alert, EndsAt = endsAt alert,
             CreatedAt = fst (time_Now w1)\<rparr> = (Some msg, w'))
   \<or> (\<exists>w1 existing.
         db_first w (fingerprint alert) = (Found existing, w1)
       \<and> Status existing \<noteq> status alert
       \<and> db_updates w1 existing (status alert) (endsAt alert) = (Some msg, w'))"

text \<open>
  The events of a list are processed one after the other, in the order of the list and
  each without error: \<open>ws\<close> lists the worlds passed, from \<open>w0\<close> on, and event \<open>i\<close> takes
  world \<open>i\<close> to world \<open>i + 1\<close>.
\<close>

definition in_input_order ::
  "json_Marshal \<Rightarrow> world \<Rightarrow> webhook_alert list \<Rightarrow> world list \<Rightarrow> bool" where
  "in_input_order marshal w0 events ws \<longleftrightarrow>
     length ws = length events + 1 \<and> ws ! 0 = w0 \<and>
     (\<forall>i < length events.
        process_alert marshal (ws ! i) (events ! i) = (ws ! Suc i, None))"

text \<open>The sum of the three classification counters.\<close>

definition classified :: "world \<Rightarrow> nat" where
  "classified w =
     irmWebhooksAlertmanagerNewTotal w + irmWebhooksAlertmanagerDuplicateTotal w +
     irmWebhooksAlertmanagerUpdatedTotal w"

text \<open>
  Concrete inputs: a fresh process on an empty table with a healthy database, an alert
  without labels and annotations (nil maps, which \<^verbatim>\<open>json.Marshal\<close> renders as
  \<^verbatim>\<open>null\<close>), and the marshaller restricted to such alerts.
\<close>

definition quiet_world :: world where
  "quiet_world =
     \<lparr>rows = [], next_id = 1, script = [],
      clock = (\<lambda>n. 1700000000 + int n), ticks = 0,
      irmWebhooksAlertmanagerTotal = 0,
      irmWebhooksAlertmanagerNewTotal = 0,
      irmWebhooksAlertmanagerDuplicateTotal = 0,
      irmWebhooksAlertmanagerUpdatedTotal = 0\<rparr>"

definition bare_alert :: "string \<Rightarrow> string \<Rightarrow> time_Time \<Rightarrow> webhook_alert" where
  "bare_alert fp st en =
     \<lparr>status = st, labels = None, annotations = None,
      startsAt = 100, endsAt = en, fingerprint = fp\<rparr>"

definition marshal_nil :: json_Marshal where
  "marshal_nil m = Inr ''null''"

text \<open>The same process later: one alert is stored and has been counted.\<close>

definition busy_world :: world where
  "busy_world =
     \<lparr>rows = [\<lparr>ID = 1, Fingerprint = ''b7'', Status = ''firing'', Labels = ''null'',
               Annotations = ''null'', StartsAt = 40, EndsAt = 0, CreatedAt = 1700000000\<rparr>],
      next_id = 2, script = [],
      clock = (\<lambda>n. 1700000000 + int n), ticks = 1,
      irmWebhooksAlertmanagerTotal = 1,
      irmWebhooksAlertmanagerNewTotal = 1,
      irmWebhooksAlertmanagerDuplicateTotal = 0,
      irmWebhooksAlertmanagerUpdatedTotal = 0\<rparr>"

section \<open>Facts about the store and the loop\<close>

lemmas store_defs =
  db_first_def db_create_def db_updates_def next_step_def arrive_def insert_row_def
  time_Now_def

lemmas example_defs =
  quiet_world_def busy_world_def bare_alert_def marshal_nil_def
  StatusOK_def StatusInternalServerError_def StatusBadRequest_def

lemma process_alert_received:
  "irmWebhooksAlertmanagerTotal (fst (process_alert marshal w alert)) =
     irmWebhooksAlertmanagerTotal w"
  by (simp add: process_alert_def store_defs
           split: list.split db_step.split option.split sum.split)

lemma process_alerts_received:
  "irmWebhooksAlertmanagerTotal (fst (process_alerts marshal w batch)) =
     irmWebhooksAlertmanagerTotal w"
proof (induction batch arbitrary: w)
  case Nil
  show ?case by simp
next
  case (Cons alert rest)
  obtain w' r where step: "process_alert marshal w alert = (w', r)"
    by (cases "process_alert marshal w alert")
  have same: "irmWebhooksAlertmanagerTotal w' = irmWebhooksAlertmanagerTotal w"
    using process_alert_received [of marshal w alert] step by simp
  show ?case
  proof (cases r)
    case None
    with step same Cons.IH [of w'] show ?thesis by simp
  next
    case (Some resp)
    with step same show ?thesis by simp
  qed
qed

lemma process_alerts_append:
  "process_alerts marshal w (xs @ ys) =
     (case process_alerts marshal w xs of
        (w', Some resp) \<Rightarrow> (w', Some resp)
      | (w', None) \<Rightarrow> process_alerts marshal w' ys)"
  by (induction xs arbitrary: w) (auto split: prod.splits option.splits)

lemma process_alerts_stop:
  assumes "process_alerts marshal w pre = (w1, None)"
    and "process_alert marshal w1 alert = (w2, Some resp)"
  shows "process_alerts marshal w (pre @ alert # post) = (w2, Some resp)"
  using assms by (simp add: process_alerts_append)

lemma broken_lookup:
  "script w = Broken e # ss \<Longrightarrow>
     process_alert marshal w alert =
       (w\<lparr>script := ss\<rparr>, Some (StatusInternalServerError, H_error e))"
  by (simp add: process_alert_def store_defs)

section \<open>An empty batch\<close>

text \<open>
  C10. A payload with zero alerts is answered with 200 and
  \<^verbatim>\<open>{"status": "alerts processed"}\<close>, and leaves the whole world as it was: no call to
  the database (the script is not consumed, the table is untouched), no clock reading,
  and none of the four counters moves (the received counter grows by zero).
\<close>

theorem handler_empty_batch:
  "handler marshal w (Inr \<lparr>alerts = []\<rparr>) = (w, (StatusOK, H_status ''alerts processed''))"
  by (simp add: handler_def)

section \<open>The received counter\<close>

text \<open>
  C9. For a payload that binds, the received counter grows by the number of alerts of the
  whole batch, whatever happens in the loop: the loop starts from the world in which the
  counter is already raised and never touches it again. So the counter says nothing
  about persistence: when the first call to the database fails, the batch is answered
  with 500 and the table is as before, and the counter has still grown by the full
  length of the batch.
\<close>

theorem handler_counts_received:
  "irmWebhooksAlertmanagerTotal (fst (handler marshal w (Inr webhook))) =
     irmWebhooksAlertmanagerTotal w + length (alerts webhook)
   \<and> fst (handler marshal w (Inr webhook)) =
       fst (process_alerts marshal
              (w\<lparr>irmWebhooksAlertmanagerTotal :=
                   irmWebhooksAlertmanagerTotal w + length (alerts webhook)\<rparr>)
              (alerts webhook))
   \<and> (script w = Broken e # ss \<and> alerts webhook \<noteq> [] \<longrightarrow>
        snd (handler marshal w (Inr webhook)) = (StatusInternalServerError, H_error e)
        \<and> rows (fst (handler marshal w (Inr webhook))) = rows w
        \<and> classified (fst (handler marshal w (Inr webhook))) = classified w)"
proof (intro conjI impI)
  let ?w0 = "w\<lparr>irmWebhooksAlertmanagerTotal :=
                  irmWebhooksAlertmanagerTotal w + length (alerts webhook)\<rparr>"
  show loop: "fst (handler marshal w (Inr webhook)) =
      fst (process_alerts marshal ?w0 (alerts webhook))"
    by (simp add: handler_def split: prod.split option.split)
  show "irmWebhooksAlertmanagerTotal (fst (handler marshal w (Inr webhook))) =
      irmWebhooksAlertmanagerTotal w + length (alerts webhook)"
    using process_alerts_received [of marshal ?w0 "alerts webhook"] loop by simp
  assume broken: "script w = Broken e # ss \<and> alerts webhook \<noteq> []"
  then obtain alert rest where batch: "alerts webhook = alert # rest"
    by (cases "alerts webhook") auto
  have first: "process_alert marshal ?w0 alert =
      (?w0\<lparr>script := ss\<rparr>, Some (StatusInternalServerError, H_error e))"
    using broken by (simp add: broken_lookup)
  have run: "handler marshal w (Inr webhook) =
      (?w0\<lparr>script := ss\<rparr>, (StatusInternalServerError, H_error e))"
    using first batch by (simp add: handler_def)
  show "snd (handler marshal w (Inr webhook)) = (StatusInternalServerError, H_error e)"
    using run by simp
  show "rows (fst (handler marshal w (Inr webhook))) = rows w"
    using run by simp
  show "classified (fst (handler marshal w (Inr webhook))) = classified w"
    using run by (simp add: classified_def)
qed

theorem handler_counts_received_witness:
  "script (quiet_world\<lparr>script := [Broken ''connection refused'']\<rparr>) =
     Broken ''connection refused'' # []
   \<and> alerts \<lparr>alerts = [bare_alert ''a1'' ''firing'' 0, bare_alert ''a2'' ''firing'' 0]\<rparr> \<noteq> []
   \<and> irmWebhooksAlertmanagerTotal
       (fst (handler marshal_nil (quiet_world\<lparr>script := [Broken ''connection refused'']\<rparr>)
          (Inr \<lparr>alerts = [bare_alert ''a1'' ''firing'' 0, bare_alert ''a2'' ''firing'' 0]\<rparr>))) = 2
   \<and> snd (handler marshal_nil (quiet_world\<lparr>script := [Broken ''connection refused'']\<rparr>)
          (Inr \<lparr>alerts = [bare_alert ''a1'' ''firing'' 0, bare_alert ''a2'' ''firing'' 0]\<rparr>)) =
       (500, H_error ''connection refused'')
   \<and> rows (fst (handler marshal_nil (quiet_world\<lparr>script := [Broken ''connection refused'']\<rparr>)
          (Inr \<lparr>alerts = [bare_alert ''a1'' ''firing'' 0, bare_alert ''a2'' ''firing'' 0]\<rparr>))) = []"
proof -
  let ?W = "quiet_world\<lparr>script := [Broken ''connection refused'']\<rparr>"
  let ?B = "\<lparr>alerts = [bare_alert ''a1'' ''firing'' 0, bare_alert ''a2'' ''firing'' 0]\<rparr>"
  note inst = handler_counts_received [of marshal_nil ?W ?B "''connection refused''" "[]"]
  have hyp: "script ?W = Broken ''connection refused'' # [] \<and> alerts ?B \<noteq> []"
    by (simp add: quiet_world_def)
  have "irmWebhooksAlertmanagerTotal (fst (handler marshal_nil ?W (Inr ?B))) =
      irmWebhooksAlertmanagerTotal ?W + length (alerts ?B)"
    by (rule inst [THEN conjunct1])
  then have total: "irmWebhooksAlertmanagerTotal (fst (handler marshal_nil ?W (Inr ?B))) = 2"
    by (simp add: quiet_world_def)
  have "snd (handler marshal_nil ?W (Inr ?B)) =
        (StatusInternalServerError, H_error ''connection refused'')
      \<and> rows (fst (handler marshal_nil ?W (Inr ?B))) = rows ?W"
    using inst hyp by blast
  then have rest: "snd (handler marshal_nil ?W (Inr ?B)) = (500, H_error ''connection refused'')
      \<and> rows (fst (handler marshal_nil ?W (Inr ?B))) = []"
    by (simp add: quiet_world_def StatusInternalServerError_def)
  show ?thesis using hyp total rest by blast
qed

section \<open>The three outcomes on a healthy store\<close>

lemma find_absent:
  "fp \<notin> set (map Fingerprint rs) \<Longrightarrow> find (\<lambda>r. Fingerprint r = fp) rs = None"
  by (induction rs) auto

lemma find_appended:
  "fp \<notin> set (map Fingerprint rs) \<Longrightarrow> Fingerprint r = fp \<Longrightarrow>
     find (\<lambda>r. Fingerprint r = fp) (rs @ [r]) = Some r"
  by (induction rs) auto

lemma find_after_update:
  "fp \<notin> set (map Fingerprint rs) \<Longrightarrow> Fingerprint r = fp \<Longrightarrow>
     find (\<lambda>r. Fingerprint r = fp)
       (map (\<lambda>x. if ID x = ID r then x\<lparr>Status := st, EndsAt := en\<rparr> else x) (rs @ [r])) =
     Some (r\<lparr>Status := st, EndsAt := en\<rparr>)"
  by (induction rs) auto

lemma count_appended:
  "fp \<notin> set (map Fingerprint rs) \<Longrightarrow> Fingerprint r = fp \<Longrightarrow>
     length (filter (\<lambda>r. Fingerprint r = fp) (rs @ [r])) = 1"
  by (induction rs) auto

lemma process_alert_new:
  assumes "script w = []"
    and "fingerprint alert \<notin> set (map Fingerprint (rows w))"
    and "marshal (labels alert) = Inr labelsJSON"
    and "marshal (annotations alert) = Inr annotationsJSON"
  shows "process_alert marshal w alert =
    (w\<lparr>rows := rows w @
          [\<lparr>ID = next_id w, Fingerprint = fingerprint alert, Status = status alert,
            Labels = labelsJSON, Annotations = annotationsJSON,
            StartsAt = startsAt alert, EndsAt = endsAt alert,
            CreatedAt = clock w (ticks w)\<rparr>],
        next_id := Suc (next_id w),
        ticks := Suc (ticks w),
        irmWebhooksAlertmanagerNewTotal := irmWebhooksAlertmanagerNewTotal w + 1\<rparr>, None)"
  using assms find_absent [OF assms(2)]
  by (simp add: process_alert_def store_defs)

lemma process_alert_duplicate:
  assumes "script w = []"
    and "find (\<lambda>r. Fingerprint r = fingerprint alert) (rows w) = Some existing"
    and "Status existing = status alert"
  shows "process_alert marshal w alert =
    (w\<lparr>irmWebhooksAlertmanagerDuplicateTotal :=
         irmWebhooksAlertmanagerDuplicateTotal w + 1\<rparr>, None)"
  using assms by (simp add: process_alert_def store_defs)

lemma process_alert_updated:
  assumes "script w = []"
    and "find (\<lambda>r. Fingerprint r = fingerprint alert) (rows w) = Some existing"
    and "Status existing \<noteq> status alert"
  shows "process_alert marshal w alert =
    (w\<lparr>rows := map (\<lambda>r. if ID r = ID existing
                         then r\<lparr>Status := status alert, EndsAt := endsAt alert\<rparr> else r)
                   (rows w),
        irmWebhooksAlertmanagerUpdatedTotal :=
          irmWebhooksAlertmanagerUpdatedTotal w + 1\<rparr>, None)"
  using assms by (simp add: process_alert_def store_defs)

lemma handler_single:
  "process_alert marshal
     (w\<lparr>irmWebhooksAlertmanagerTotal := irmWebhooksAlertmanagerTotal w + 1\<rparr>) alert =
     (w', None) \<Longrightarrow>
   handler marshal w (Inr \<lparr>alerts = [alert]\<rparr>) =
     (w', (StatusOK, H_status ''alerts processed''))"
  by (simp add: handler_def)

text \<open>
  C3. On a healthy store that does not hold the event's fingerprint, and for an event
  whose labels and annotations serialize, sending the event twice gives New and then
  Duplicate: the first request inserts one row and raises only the new counter, the
  second raises only the duplicate counter (and the received counter) and leaves the
  whole world otherwise as it was, so the table, with the row's ends-at, is unchanged.
  The table then holds exactly one row with that fingerprint. The same holds when the
  event comes twice in one batch.
\<close>

theorem same_event_twice_new_then_duplicate:
  assumes "script w = []"
    and "fingerprint alert \<notin> set (map Fingerprint (rows w))"
    and "marshal (labels alert) = Inr labelsJSON"
    and "marshal (annotations alert) = Inr annotationsJSON"
  shows
    "(let row = \<lparr>ID = next_id w, Fingerprint = fingerprint alert, Status = status alert,
                 Labels = labelsJSON, Annotations = annotationsJSON,
                 StartsAt = startsAt alert, EndsAt = endsAt alert,
                 CreatedAt = clock w (ticks w)\<rparr>;
          w1 = w\<lparr>rows := rows w @ [row], next_id := Suc (next_id w),
                 ticks := Suc (ticks w),
                 irmWebhooksAlertmanagerTotal := irmWebhooksAlertmanagerTotal w + 1,
                 irmWebhooksAlertmanagerNewTotal := irmWebhooksAlertmanagerNewTotal w + 1\<rparr>;
          w2 = w1\<lparr>irmWebhooksAlertmanagerTotal := irmWebhooksAlertmanagerTotal w1 + 1,
                  irmWebhooksAlertmanagerDuplicateTotal :=
                    irmWebhooksAlertmanagerDuplicateTotal w1 + 1\<rparr>
      in handler marshal w (Inr \<lparr>alerts = [alert]\<rparr>) =
           (w1, (StatusOK, H_status ''alerts processed''))
       \<and> handler marshal w1 (Inr \<lparr>alerts = [alert]\<rparr>) =
           (w2, (StatusOK, H_status ''alerts processed''))
       \<and> handler marshal w (Inr \<lparr>alerts = [alert, alert]\<rparr>) =
           (w2, (StatusOK, H_status ''alerts processed''))
       \<and> rows w2 = rows w1
       \<and> length (filter (\<lambda>r. Fingerprint r = fingerprint alert) (rows w2)) = 1)"
proof -
  define row where "row = \<lparr>ID = next_id w, Fingerprint = fingerprint alert,
      Status = status alert, Labels = labelsJSON, Annotations = annotationsJSON,
      StartsAt = startsAt alert, EndsAt = endsAt alert, CreatedAt = clock w (ticks w)\<rparr>"
  have row_fp: "Fingerprint row = fingerprint alert" and row_st: "Status row = status alert"
    by (simp_all add: row_def)
  let ?in1 = "w\<lparr>irmWebhooksAlertmanagerTotal := irmWebhooksAlertmanagerTotal w + 1\<rparr>"
  let ?w1 = "w\<lparr>rows := rows w @ [row], next_id := Suc (next_id w),
                 ticks := Suc (ticks w),
                 irmWebhooksAlertmanagerTotal := irmWebhooksAlertmanagerTotal w + 1,
                 irmWebhooksAlertmanagerNewTotal := irmWebhooksAlertmanagerNewTotal w + 1\<rparr>"
  let ?in2 = "?w1\<lparr>irmWebhooksAlertmanagerTotal := irmWebhooksAlertmanagerTotal ?w1 + 1\<rparr>"
  let ?w2 = "?w1\<lparr>irmWebhooksAlertmanagerTotal := irmWebhooksAlertmanagerTotal ?w1 + 1,
                  irmWebhooksAlertmanagerDuplicateTotal :=
                    irmWebhooksAlertmanagerDuplicateTotal ?w1 + 1\<rparr>"
  let ?in3 = "w\<lparr>irmWebhooksAlertmanagerTotal := irmWebhooksAlertmanagerTotal w + 2\<rparr>"
  have found: "find (\<lambda>r. Fingerprint r = fingerprint alert) (rows w @ [row]) = Some row"
    using assms(2) row_fp by (rule find_appended)
  have first: "process_alert marshal ?in1 alert = (?w1, None)"
    using process_alert_new [of ?in1 alert marshal labelsJSON annotationsJSON] assms
    by (simp add: row_def)
  have second: "process_alert marshal ?in2 alert = (?w2, None)"
    using process_alert_duplicate [of ?in2 alert row marshal] assms(1) found row_st
    by simp
  have first': "process_alert marshal ?in3 alert =
      (?w1\<lparr>irmWebhooksAlertmanagerTotal := irmWebhooksAlertmanagerTotal w + 2\<rparr>, None)"
    using process_alert_new [of ?in3 alert marshal labelsJSON annotationsJSON] assms
    by (simp add: row_def)
  have second': "process_alert marshal
      (?w1\<lparr>irmWebhooksAlertmanagerTotal := irmWebhooksAlertmanagerTotal w + 2\<rparr>) alert =
      (?w2, None)"
    using process_alert_duplicate
      [of "?w1\<lparr>irmWebhooksAlertmanagerTotal := irmWebhooksAlertmanagerTotal w + 2\<rparr>"
          alert row marshal] assms(1) found row_st
    by simp
  have one: "handler marshal w (Inr \<lparr>alerts = [alert]\<rparr>) =
      (?w1, (StatusOK, H_status ''alerts processed''))"
    using first by (rule handler_single)
  have two: "handler marshal ?w1 (Inr \<lparr>alerts = [alert]\<rparr>) =
      (?w2, (StatusOK, H_status ''alerts processed''))"
    using second by (rule handler_single)
  have both: "handler marshal w (Inr \<lparr>alerts = [alert, alert]\<rparr>) =
      (?w2, (StatusOK, H_status ''alerts processed''))"
    using first' second' by (simp add: handler_def)
  have count: "length (filter (\<lambda>r. Fingerprint r = fingerprint alert) (rows w @ [row])) = 1"
    using assms(2) row_fp by (rule count_appended)
  show ?thesis
    unfolding Let_def row_def [symmetric]
    using one two both count by simp
qed

theorem same_event_twice_new_then_duplicate_witness:
  "script busy_world = []
   \<and> fingerprint (bare_alert ''a1'' ''firing'' 0) \<notin> set (map Fingerprint (rows busy_world))
   \<and> marshal_nil (labels (bare_alert ''a1'' ''firing'' 0)) = Inr ''null''
   \<and> marshal_nil (annotations (bare_alert ''a1'' ''firing'' 0)) = Inr ''null''
   \<and> handler marshal_nil busy_world (Inr \<lparr>alerts = [bare_alert ''a1'' ''firing'' 0]\<rparr>) =
       (busy_world
          \<lparr>rows := rows busy_world @
             [\<lparr>ID = 2, Fingerprint = ''a1'', Status = ''firing'', Labels = ''null'',
               Annotations = ''null'', StartsAt = 100, EndsAt = 0,
               CreatedAt = 1700000001\<rparr>],
           next_id := 3, ticks := 2,
           irmWebhooksAlertmanagerTotal := 2, irmWebhooksAlertmanagerNewTotal := 2\<rparr>,
        (200, H_status ''alerts processed''))
   \<and> handler marshal_nil
       (busy_world
          \<lparr>rows := rows busy_world @
             [\<lparr>ID = 2, Fingerprint = ''a1'', Status = ''firing'', Labels = ''null'',
               Annotations = ''null'', StartsAt = 100, EndsAt = 0,
               CreatedAt = 1700000001\<rparr>],
           next_id := 3, ticks := 2,
           irmWebhooksAlertmanagerTotal := 2, irmWebhooksAlertmanagerNewTotal := 2\<rparr>)
       (Inr \<lparr>alerts = [bare_alert ''a1'' ''firing'' 0]\<rparr>) =
       (busy_world
          \<lparr>rows := rows busy_world @
             [\<lparr>ID = 2, Fingerprint = ''a1'', Status = ''firing'', Labels = ''null'',
               Annotations = ''null'', StartsAt = 100, EndsAt = 0,
               CreatedAt = 1700000001\<rparr>],
           next_id := 3, ticks := 2,
           irmWebhooksAlertmanagerTotal := 3, irmWebhooksAlertmanagerNewTotal := 2,
           irmWebhooksAlertmanagerDuplicateTotal := 1\<rparr>,
        (200, H_status ''alerts processed''))"
proof -
  have hyps: "script busy_world = []"
    "fingerprint (bare_alert ''a1'' ''firing'' 0) \<notin> set (map Fingerprint (rows busy_world))"
    "marshal_nil (labels (bare_alert ''a1'' ''firing'' 0)) = Inr ''null''"
    "marshal_nil (annotations (bare_alert ''a1'' ''firing'' 0)) = Inr ''null''"
    by (simp_all add: example_defs)
  note inst = same_event_twice_new_then_duplicate [OF hyps, unfolded Let_def]
  have one: "handler marshal_nil busy_world (Inr \<lparr>alerts = [bare_alert ''a1'' ''firing'' 0]\<rparr>) =
       (busy_world
          \<lparr>rows := rows busy_world @
             [\<lparr>ID = 2, Fingerprint = ''a1'', Status = ''firing'', Labels = ''null'',
               Annotations = ''null'', StartsAt = 100, EndsAt = 0,
               CreatedAt = 1700000001\<rparr>],
           next_id := 3, ticks := 2,
           irmWebhooksAlertmanagerTotal := 2, irmWebhooksAlertmanagerNewTotal := 2\<rparr>,
        (200, H_status ''alerts processed''))"
    using inst [THEN conjunct1] by (simp add: example_defs numeral_2_eq_2 numeral_3_eq_3)
  have two: "handler marshal_nil
       (busy_world
          \<lparr>rows := rows busy_world @
             [\<lparr>ID = 2, Fingerprint = ''a1'', Status = ''firing'', Labels = ''null'',
               Annotations = ''null'', StartsAt = 100, EndsAt = 0,
               CreatedAt = 1700000001\<rparr>],
           next_id := 3, ticks := 2,
           irmWebhooksAlertmanagerTotal := 2, irmWebhooksAlertmanagerNewTotal := 2\<rparr>)
       (Inr \<lparr>alerts = [bare_alert ''a1'' ''firing'' 0]\<rparr>) =
       (busy_world
          \<lparr>rows := rows busy_world @
             [\<lparr>ID = 2, Fingerprint = ''a1'', Status = ''firing'', Labels = ''null'',
               Annotations = ''null'', StartsAt = 100, EndsAt = 0,
               CreatedAt = 1700000001\<rparr>],
           next_id := 3, ticks := 2,
           irmWebhooksAlertmanagerTotal := 3, irmWebhooksAlertmanagerNewTotal := 2,
           irmWebhooksAlertmanagerDuplicateTotal := 1\<rparr>,
        (200, H_status ''alerts processed''))"
    using inst [THEN conjunct2, THEN conjunct1]
    by (simp add: example_defs numeral_2_eq_2 numeral_3_eq_3)
  show ?thesis
    using hyps one two by blast
qed

section \<open>A status transition\<close>

text \<open>
  C4. On a healthy store that does not hold fingerprint \<open>F\<close>, an event of \<open>F\<close> with
  status "firing" followed by an event of \<open>F\<close> with status "resolved" gives New and
  then Updated: the first request raises only the new counter, the second only the
  updated counter. The row stored under \<open>F\<close> afterwards has status "resolved" and the
  ends-at of the second event, while its starts-at, labels and annotations are those of
  the first event and its created-at is the clock reading taken at the insert.
\<close>

theorem firing_then_resolved:
  assumes "script w = []"
    and "fingerprint e1 \<notin> set (map Fingerprint (rows w))"
    and "marshal (labels e1) = Inr labelsJSON"
    and "marshal (annotations e1) = Inr annotationsJSON"
    and "fingerprint e2 = fingerprint e1"
    and "status e1 = ''firing''"
    and "status e2 = ''resolved''"
  shows
    "(let w1 = fst (handler marshal w (Inr \<lparr>alerts = [e1]\<rparr>));
          w2 = fst (handler marshal w1 (Inr \<lparr>alerts = [e2]\<rparr>))
      in snd (handler marshal w (Inr \<lparr>alerts = [e1]\<rparr>)) =
           (StatusOK, H_status ''alerts processed'')
       \<and> irmWebhooksAlertmanagerNewTotal w1 = irmWebhooksAlertmanagerNewTotal w + 1
       \<and> irmWebhooksAlertmanagerDuplicateTotal w1 = irmWebhooksAlertmanagerDuplicateTotal w
       \<and> irmWebhooksAlertmanagerUpdatedTotal w1 = irmWebhooksAlertmanagerUpdatedTotal w
       \<and> snd (handler marshal w1 (Inr \<lparr>alerts = [e2]\<rparr>)) =
           (StatusOK, H_status ''alerts processed'')
       \<and> irmWebhooksAlertmanagerNewTotal w2 = irmWebhooksAlertmanagerNewTotal w1
       \<and> irmWebhooksAlertmanagerDuplicateTotal w2 = irmWebhooksAlertmanagerDuplicateTotal w1
       \<and> irmWebhooksAlertmanagerUpdatedTotal w2 = irmWebhooksAlertmanagerUpdatedTotal w1 + 1
       \<and> find (\<lambda>r. Fingerprint r = fingerprint e1) (rows w2) =
           Some \<lparr>ID = next_id w, Fingerprint = fingerprint e1, Status = ''resolved'',
                 Labels = labelsJSON, Annotations = annotationsJSON,
                 StartsAt = startsAt e1, EndsAt = endsAt e2,
                 CreatedAt = clock w (ticks w)\<rparr>
       \<and> length (rows w2) = length (rows w) + 1)"
proof -
  define row where "row = \<lparr>ID = next_id w, Fingerprint = fingerprint e1,
      Status = status e1, Labels = labelsJSON, Annotations = annotationsJSON,
      StartsAt = startsAt e1, EndsAt = endsAt e1, CreatedAt = clock w (ticks w)\<rparr>"
  have row_fp: "Fingerprint row = fingerprint e1" by (simp add: row_def)
  have differs: "Status row \<noteq> status e2"
    using assms(6,7) by (simp add: row_def)
  let ?in1 = "w\<lparr>irmWebhooksAlertmanagerTotal := irmWebhooksAlertmanagerTotal w + 1\<rparr>"
  let ?w1 = "w\<lparr>rows := rows w @ [row], next_id := Suc (next_id w),
                 ticks := Suc (ticks w),
                 irmWebhooksAlertmanagerTotal := irmWebhooksAlertmanagerTotal w + 1,
                 irmWebhooksAlertmanagerNewTotal := irmWebhooksAlertmanagerNewTotal w + 1\<rparr>"
  let ?in2 = "?w1\<lparr>irmWebhooksAlertmanagerTotal := irmWebhooksAlertmanagerTotal ?w1 + 1\<rparr>"
  let ?upd = "\<lambda>r. if ID r = ID row
                   then r\<lparr>Status := status e2, EndsAt := endsAt e2\<rparr> else r"
  let ?w2 = "?in2\<lparr>rows := map ?upd (rows w @ [row]),
                  irmWebhooksAlertmanagerUpdatedTotal :=
                    irmWebhooksAlertmanagerUpdatedTotal w + 1\<rparr>"
  have found: "find (\<lambda>r. Fingerprint r = fingerprint e2) (rows w @ [row]) = Some row"
    using assms(2) row_fp assms(5) by (simp add: find_appended)
  have first: "process_alert marshal ?in1 e1 = (?w1, None)"
    using process_alert_new [of ?in1 e1 marshal labelsJSON annotationsJSON] assms(1-4)
    by (simp add: row_def)
  have second: "process_alert marshal ?in2 e2 = (?w2, None)"
    using process_alert_updated [of ?in2 e2 row marshal] assms(1) found differs
    by simp
  have one: "handler marshal w (Inr \<lparr>alerts = [e1]\<rparr>) =
      (?w1, (StatusOK, H_status ''alerts processed''))"
    using first by (rule handler_single)
  have two: "handler marshal ?w1 (Inr \<lparr>alerts = [e2]\<rparr>) =
      (?w2, (StatusOK, H_status ''alerts processed''))"
    using second by (rule handler_single)
  have stored: "find (\<lambda>r. Fingerprint r = fingerprint e1) (map ?upd (rows w @ [row])) =
      Some (row\<lparr>Status := status e2, EndsAt := endsAt e2\<rparr>)"
    using assms(2) row_fp by (rule find_after_update)
  have final: "row\<lparr>Status := status e2, EndsAt := endsAt e2\<rparr> =
      \<lparr>ID = next_id w, Fingerprint = fingerprint e1, Status = ''resolved'',
       Labels = labelsJSON, Annotations = annotationsJSON,
       StartsAt = startsAt e1, EndsAt = endsAt e2, CreatedAt = clock w (ticks w)\<rparr>"
    using assms(7) by (simp add: row_def)
  have fst1: "fst (handler marshal w (Inr \<lparr>alerts = [e1]\<rparr>)) = ?w1"
    and snd1: "snd (handler marshal w (Inr \<lparr>alerts = [e1]\<rparr>)) =
      (StatusOK, H_status ''alerts processed'')"
    using one by simp_all
  have fst2: "fst (handler marshal ?w1 (Inr \<lparr>alerts = [e2]\<rparr>)) = ?w2"
    and snd2: "snd (handler marshal ?w1 (Inr \<lparr>alerts = [e2]\<rparr>)) =
      (StatusOK, H_status ''alerts processed'')"
    using two by simp_all
  show ?thesis
    unfolding Let_def fst1 snd1 fst2 snd2 using stored final by simp
qed

theorem firing_then_resolved_witness:
  "script busy_world = []
   \<and> fingerprint (bare_alert ''a1'' ''firing'' 0) \<notin> set (map Fingerprint (rows busy_world))
   \<and> marshal_nil (labels (bare_alert ''a1'' ''firing'' 0)) = Inr ''null''
   \<and> marshal_nil (annotations (bare_alert ''a1'' ''firing'' 0)) = Inr ''null''
   \<and> fingerprint (bare_alert ''a1'' ''resolved'' 250) =
       fingerprint (bare_alert ''a1'' ''firing'' 0)
   \<and> status (bare_alert ''a1'' ''firing'' 0) = ''firing''
   \<and> status (bare_alert ''a1'' ''resolved'' 250) = ''resolved''
   \<and> find (\<lambda>r. Fingerprint r = ''a1'')
        (rows (fst (handler marshal_nil
           (fst (handler marshal_nil busy_world
              (Inr \<lparr>alerts = [bare_alert ''a1'' ''firing'' 0]\<rparr>)))
           (Inr \<lparr>alerts = [bare_alert ''a1'' ''resolved'' 250]\<rparr>)))) =
       Some \<lparr>ID = 2, Fingerprint = ''a1'', Status = ''resolved'', Labels = ''null'',
             Annotations = ''null'', StartsAt = 100, EndsAt = 250,
             CreatedAt = 1700000001\<rparr>
   \<and> irmWebhooksAlertmanagerUpdatedTotal
        (fst (handler marshal_nil
           (fst (handler marshal_nil busy_world
              (Inr \<lparr>alerts = [bare_alert ''a1'' ''firing'' 0]\<rparr>)))
           (Inr \<lparr>alerts = [bare_alert ''a1'' ''resolved'' 250]\<rparr>))) = 1"
proof -
  let ?e1 = "bare_alert ''a1'' ''firing'' 0"
  let ?e2 = "bare_alert ''a1'' ''resolved'' 250"
  let ?w2 = "fst (handler marshal_nil
           (fst (handler marshal_nil busy_world (Inr \<lparr>alerts = [?e1]\<rparr>)))
           (Inr \<lparr>alerts = [?e2]\<rparr>))"
  have hyps: "script busy_world = []"
    "fingerprint ?e1 \<notin> set (map Fingerprint (rows busy_world))"
    "marshal_nil (labels ?e1) = Inr ''null''"
    "marshal_nil (annotations ?e1) = Inr ''null''"
    "fingerprint ?e2 = fingerprint ?e1"
    "status ?e1 = ''firing''"
    "status ?e2 = ''resolved''"
    by (simp_all add: example_defs)
  note inst = firing_then_resolved [OF hyps, unfolded Let_def]
  have stored: "find (\<lambda>r. Fingerprint r = fingerprint ?e1) (rows ?w2) =
      Some \<lparr>ID = next_id busy_world, Fingerprint = fingerprint ?e1, Status = ''resolved'',
            Labels = ''null'', Annotations = ''null'', StartsAt = startsAt ?e1,
            EndsAt = endsAt ?e2, CreatedAt = clock busy_world (ticks busy_world)\<rparr>"
    using inst by blast
  have counted: "irmWebhooksAlertmanagerUpdatedTotal ?w2 =
      irmWebhooksAlertmanagerUpdatedTotal busy_world + 1"
    using inst by presburger
  have a: "find (\<lambda>r. Fingerprint r = ''a1'') (rows ?w2) =
      Some \<lparr>ID = 2, Fingerprint = ''a1'', Status = ''resolved'', Labels = ''null'',
            Annotations = ''null'', StartsAt = 100, EndsAt = 250, CreatedAt = 1700000001\<rparr>"
    using stored by (simp add: busy_world_def bare_alert_def)
  have b: "irmWebhooksAlertmanagerUpdatedTotal ?w2 = 1"
    using counted by (simp add: busy_world_def)
  show ?thesis
    using hyps a b by blast
qed

section \<open>An empty fingerprint\<close>

text \<open>
  C2, as stated, does not hold: the handler validates nothing. On an empty table and a
  healthy database the batch of \<open>a1\<close>, an alert with the empty fingerprint and \<open>a2\<close>
  is answered with 200 and the success body, no error is reported at any position, and
  three rows are stored, the second under the empty fingerprint.
\<close>

theorem empty_fingerprint_stored_counterexample:
  "handler marshal_nil quiet_world
     (Inr \<lparr>alerts = [bare_alert ''a1'' ''firing'' 0, bare_alert [] ''firing'' 0,
                      bare_alert ''a2'' ''firing'' 0]\<rparr>) =
     (quiet_world
        \<lparr>rows :=
           [\<lparr>ID = 1, Fingerprint = ''a1'', Status = ''firing'', Labels = ''null'',
             Annotations = ''null'', StartsAt = 100, EndsAt = 0, CreatedAt = 1700000000\<rparr>,
            \<lparr>ID = 2, Fingerprint = [], Status = ''firing'', Labels = ''null'',
             Annotations = ''null'', StartsAt = 100, EndsAt = 0, CreatedAt = 1700000001\<rparr>,
            \<lparr>ID = 3, Fingerprint = ''a2'', Status = ''firing'', Labels = ''null'',
             Annotations = ''null'', StartsAt = 100, EndsAt = 0, CreatedAt = 1700000002\<rparr>],
         next_id := 4, ticks := 3,
         irmWebhooksAlertmanagerTotal := 3, irmWebhooksAlertmanagerNewTotal := 3\<rparr>,
      (200, H_status ''alerts processed''))"
  by (simp add: handler_def process_alert_def store_defs example_defs)

text \<open>
  C2, amended. An event with an empty fingerprint is reconciled like any other event,
  with the empty string as its key. For a batch of three events with pairwise different
  fingerprints that the store does not hold, the second of them empty, on a healthy store
  and with labels and annotations that serialize, the handler answers 200 with the
  success body and has inserted three rows, in the order of the batch, the second with
  the empty fingerprint; the new counter has grown by three.
\<close>

theorem empty_fingerprint_is_reconciled:
  assumes "script w = []"
    and "fingerprint bad = []"
    and "fingerprint v1 \<noteq> []" and "fingerprint v2 \<noteq> []"
    and "fingerprint v1 \<noteq> fingerprint v2"
    and "fingerprint v1 \<notin> set (map Fingerprint (rows w))"
    and "[] \<notin> set (map Fingerprint (rows w))"
    and "fingerprint v2 \<notin> set (map Fingerprint (rows w))"
    and "marshal (labels v1) = Inr lj1" and "marshal (annotations v1) = Inr aj1"
    and "marshal (labels bad) = Inr lj0" and "marshal (annotations bad) = Inr aj0"
    and "marshal (labels v2) = Inr lj2" and "marshal (annotations v2) = Inr aj2"
  shows "snd (handler marshal w (Inr \<lparr>alerts = [v1, bad, v2]\<rparr>)) =
           (StatusOK, H_status ''alerts processed'')
       \<and> rows (fst (handler marshal w (Inr \<lparr>alerts = [v1, bad, v2]\<rparr>))) =
           rows w @
           [\<lparr>ID = next_id w, Fingerprint = fingerprint v1, Status = status v1,
             Labels = lj1, Annotations = aj1, StartsAt = startsAt v1,
             EndsAt = endsAt v1, CreatedAt = clock w (ticks w)\<rparr>,
            \<lparr>ID = next_id w + 1, Fingerprint = [], Status = status bad,
             Labels = lj0, Annotations = aj0, StartsAt = startsAt bad,
             EndsAt = endsAt bad, CreatedAt = clock w (ticks w + 1)\<rparr>,
            \<lparr>ID = next_id w + 2, Fingerprint = fingerprint v2, Status = status v2,
             Labels = lj2, Annotations = aj2, StartsAt = startsAt v2,
             EndsAt = endsAt v2, CreatedAt = clock w (ticks w + 2)\<rparr>]
       \<and> irmWebhooksAlertmanagerNewTotal
           (fst (handler marshal w (Inr \<lparr>alerts = [v1, bad, v2]\<rparr>))) =
           irmWebhooksAlertmanagerNewTotal w + 3"
proof -
  let ?w0 = "w\<lparr>irmWebhooksAlertmanagerTotal :=
                  irmWebhooksAlertmanagerTotal w + length [v1, bad, v2]\<rparr>"
  note m = assms(9-14)
  obtain w1 where s1: "process_alert marshal ?w0 v1 = (w1, None)"
    and w1: "w1 = ?w0\<lparr>rows := rows ?w0 @
          [\<lparr>ID = next_id ?w0, Fingerprint = fingerprint v1, Status = status v1,
            Labels = lj1, Annotations = aj1,
            StartsAt = startsAt v1, EndsAt = endsAt v1,
            CreatedAt = clock ?w0 (ticks ?w0)\<rparr>],
        next_id := Suc (next_id ?w0), ticks := Suc (ticks ?w0),
        irmWebhooksAlertmanagerNewTotal := irmWebhooksAlertmanagerNewTotal ?w0 + 1\<rparr>"
    using process_alert_new [of ?w0 v1 marshal lj1 aj1] assms(1,6) m by simp
  obtain w2 where s2: "process_alert marshal w1 bad = (w2, None)"
    and w2: "w2 = w1\<lparr>rows := rows w1 @
          [\<lparr>ID = next_id w1, Fingerprint = fingerprint bad, Status = status bad,
            Labels = lj0, Annotations = aj0,
            StartsAt = startsAt bad, EndsAt = endsAt bad,
            CreatedAt = clock w1 (ticks w1)\<rparr>],
        next_id := Suc (next_id w1), ticks := Suc (ticks w1),
        irmWebhooksAlertmanagerNewTotal := irmWebhooksAlertmanagerNewTotal w1 + 1\<rparr>"
    using process_alert_new [of w1 bad marshal lj0 aj0] assms(1,2,3,7) m w1
    by simp
  obtain w3 where s3: "process_alert marshal w2 v2 = (w3, None)"
    and w3: "w3 = w2\<lparr>rows := rows w2 @
          [\<lparr>ID = next_id w2, Fingerprint = fingerprint v2, Status = status v2,
            Labels = lj2, Annotations = aj2,
            StartsAt = startsAt v2, EndsAt = endsAt v2,
            CreatedAt = clock w2 (ticks w2)\<rparr>],
        next_id := Suc (next_id w2), ticks := Suc (ticks w2),
        irmWebhooksAlertmanagerNewTotal := irmWebhooksAlertmanagerNewTotal w2 + 1\<rparr>"
    using process_alert_new [of w2 v2 marshal lj2 aj2] assms(1,2,4,5,8) m w1 w2
    by simp
  have run: "handler marshal w (Inr \<lparr>alerts = [v1, bad, v2]\<rparr>) =
      (w3, (StatusOK, H_status ''alerts processed''))"
    using s1 s2 s3 by (simp add: handler_def)
  show ?thesis
    unfolding run using w1 w2 w3 assms(2) by simp
qed

theorem empty_fingerprint_is_reconciled_witness:
  "script busy_world = []
   \<and> fingerprint (bare_alert [] ''resolved'' 9) = []
   \<and> fingerprint (bare_alert ''a1'' ''firing'' 0) \<noteq> []
   \<and> fingerprint (bare_alert ''a2'' ''firing'' 0) \<noteq> []
   \<and> fingerprint (bare_alert ''a1'' ''firing'' 0) \<noteq> fingerprint (bare_alert ''a2'' ''firing'' 0)
   \<and> fingerprint (bare_alert ''a1'' ''firing'' 0) \<notin> set (map Fingerprint (rows busy_world))
   \<and> [] \<notin> set (map Fingerprint (rows busy_world))
   \<and> fingerprint (bare_alert ''a2'' ''firing'' 0) \<notin> set (map Fingerprint (rows busy_world))
   \<and> marshal_nil (labels (bare_alert ''a1'' ''firing'' 0)) = Inr ''null''
   \<and> marshal_nil (annotations (bare_alert ''a1'' ''firing'' 0)) = Inr ''null''
   \<and> marshal_nil (labels (bare_alert [] ''resolved'' 9)) = Inr ''null''
   \<and> marshal_nil (annotations (bare_alert [] ''resolved'' 9)) = Inr ''null''
   \<and> marshal_nil (labels (bare_alert ''a2'' ''firing'' 0)) = Inr ''null''
   \<and> marshal_nil (annotations (bare_alert ''a2'' ''firing'' 0)) = Inr ''null''
   \<and> snd (handler marshal_nil busy_world
         (Inr \<lparr>alerts = [bare_alert ''a1'' ''firing'' 0, bare_alert [] ''resolved'' 9,
                          bare_alert ''a2'' ''firing'' 0]\<rparr>)) =
       (200, H_status ''alerts processed'')
   \<and> rows (fst (handler marshal_nil busy_world
         (Inr \<lparr>alerts = [bare_alert ''a1'' ''firing'' 0, bare_alert [] ''resolved'' 9,
                          bare_alert ''a2'' ''firing'' 0]\<rparr>))) =
       [\<lparr>ID = 1, Fingerprint = ''b7'', Status = ''firing'', Labels = ''null'',
         Annotations = ''null'', StartsAt = 40, EndsAt = 0, CreatedAt = 1700000000\<rparr>,
        \<lparr>ID = 2, Fingerprint = ''a1'', Status = ''firing'', Labels = ''null'',
         Annotations = ''null'', StartsAt = 100, EndsAt = 0, CreatedAt = 1700000001\<rparr>,
        \<lparr>ID = 3, Fingerprint = [], Status = ''resolved'', Labels = ''null'',
         Annotations = ''null'', StartsAt = 100, EndsAt = 9, CreatedAt = 1700000002\<rparr>,
        \<lparr>ID = 4, Fingerprint = ''a2'', Status = ''firing'', Labels = ''null'',
         Annotations = ''null'', StartsAt = 100, EndsAt = 0, CreatedAt = 1700000003\<rparr>]"
proof -
  let ?v1 = "bare_alert ''a1'' ''firing'' 0"
  let ?bad = "bare_alert [] ''resolved'' 9"
  let ?v2 = "bare_alert ''a2'' ''firing'' 0"
  have hyps: "script busy_world = []"
    "fingerprint ?bad = []"
    "fingerprint ?v1 \<noteq> []"
    "fingerprint ?v2 \<noteq> []"
    "fingerprint ?v1 \<noteq> fingerprint ?v2"
    "fingerprint ?v1 \<notin> set (map Fingerprint (rows busy_world))"
    "[] \<notin> set (map Fingerprint (rows busy_world))"
    "fingerprint ?v2 \<notin> set (map Fingerprint (rows busy_world))"
    "marshal_nil (labels ?v1) = Inr ''null''"
    "marshal_nil (annotations ?v1) = Inr ''null''"
    "marshal_nil (labels ?bad) = Inr ''null''"
    "marshal_nil (annotations ?bad) = Inr ''null''"
    "marshal_nil (labels ?v2) = Inr ''null''"
    "marshal_nil (annotations ?v2) = Inr ''null''"
    by (simp_all add: example_defs)
  note inst = empty_fingerprint_is_reconciled [OF hyps]
  have answered: "snd (handler marshal_nil busy_world (Inr \<lparr>alerts = [?v1, ?bad, ?v2]\<rparr>)) =
      (200, H_status ''alerts processed'')"
    using inst [THEN conjunct1] by (simp add: StatusOK_def)
  have stored: "rows (fst (handler marshal_nil busy_world
        (Inr \<lparr>alerts = [?v1, ?bad, ?v2]\<rparr>))) =
       [\<lparr>ID = 1, Fingerprint = ''b7'', Status = ''firing'', Labels = ''null'',
         Annotations = ''null'', StartsAt = 40, EndsAt = 0, CreatedAt = 1700000000\<rparr>,
        \<lparr>ID = 2, Fingerprint = ''a1'', Status = ''firing'', Labels = ''null'',
         Annotations = ''null'', StartsAt = 100, EndsAt = 0, CreatedAt = 1700000001\<rparr>,
        \<lparr>ID = 3, Fingerprint = [], Status = ''resolved'', Labels = ''null'',
         Annotations = ''null'', StartsAt = 100, EndsAt = 9, CreatedAt = 1700000002\<rparr>,
        \<lparr>ID = 4, Fingerprint = ''a2'', Status = ''firing'', Labels = ''null'',
         Annotations = ''null'', StartsAt = 100, EndsAt = 0, CreatedAt = 1700000003\<rparr>]"
    using inst [THEN conjunct2, THEN conjunct1] by (simp add: busy_world_def bare_alert_def)
  show ?thesis
    using hyps answered stored by simp
qed

section \<open>What every request preserves\<close>

lemma rows_kept_refl: "rows_kept w w"
  by (simp add: rows_kept_def)

lemma rows_kept_trans: "rows_kept w w' \<Longrightarrow> rows_kept w' w'' \<Longrightarrow> rows_kept w w''"
  unfolding rows_kept_def by (rule prefix_order.trans)

lemma rows_kept_same: "rows w' = rows w \<Longrightarrow> rows_kept w w'"
  by (simp add: rows_kept_def)

lemma update_keeps_fingerprints:
  "map (Fingerprint \<circ> (\<lambda>r. if ID r = i then r\<lparr>Status := st, EndsAt := en\<rparr> else r)) rs =
     map Fingerprint rs"
  by (induction rs) auto

lemma update_keeps_immutable:
  "map (immutable_columns \<circ>
        (\<lambda>r. if ID r = i then r\<lparr>Status := st, EndsAt := en\<rparr> else r)) rs =
     map immutable_columns rs"
  by (induction rs) (auto simp: immutable_columns_def)

lemma unique_fingerprints_frame [simp]:
  "unique_fingerprints (w\<lparr>ticks := t\<rparr>) = unique_fingerprints w"
  "unique_fingerprints (w\<lparr>irmWebhooksAlertmanagerTotal := n\<rparr>) = unique_fingerprints w"
  "unique_fingerprints (w\<lparr>irmWebhooksAlertmanagerNewTotal := n\<rparr>) = unique_fingerprints w"
  "unique_fingerprints (w\<lparr>irmWebhooksAlertmanagerDuplicateTotal := n\<rparr>) =
     unique_fingerprints w"
  "unique_fingerprints (w\<lparr>irmWebhooksAlertmanagerUpdatedTotal := n\<rparr>) =
     unique_fingerprints w"
  by (simp_all add: unique_fingerprints_def)

lemma rows_kept_frame [simp]:
  "rows_kept w (w'\<lparr>ticks := t\<rparr>) = rows_kept w w'"
  "rows_kept w (w'\<lparr>irmWebhooksAlertmanagerTotal := n\<rparr>) = rows_kept w w'"
  "rows_kept w (w'\<lparr>irmWebhooksAlertmanagerNewTotal := n\<rparr>) = rows_kept w w'"
  "rows_kept w (w'\<lparr>irmWebhooksAlertmanagerDuplicateTotal := n\<rparr>) = rows_kept w w'"
  "rows_kept w (w'\<lparr>irmWebhooksAlertmanagerUpdatedTotal := n\<rparr>) = rows_kept w w'"
  by (simp_all add: rows_kept_def)

lemma insert_row_unique:
  "unique_fingerprints w \<Longrightarrow> unique_fingerprints (snd (insert_row r w))"
  by (simp add: insert_row_def unique_fingerprints_def)

lemma insert_row_kept: "rows_kept w (snd (insert_row r w))"
  by (simp add: insert_row_def rows_kept_def)

lemma arrive_unique: "unique_fingerprints w \<Longrightarrow> unique_fingerprints (arrive s w)"
  by (cases s) (simp_all add: arrive_def insert_row_unique)

lemma arrive_kept: "rows_kept w (arrive s w)"
  by (cases s) (simp_all add: arrive_def insert_row_kept rows_kept_refl)

lemma next_step_rows: "rows (snd (next_step w)) = rows w"
  by (simp add: next_step_def split: list.split)

lemma next_step_unique:
  "unique_fingerprints w \<Longrightarrow> unique_fingerprints (snd (next_step w))"
  by (simp add: unique_fingerprints_def next_step_rows)

lemma next_step_kept: "rows_kept w (snd (next_step w))"
  by (simp add: rows_kept_same next_step_rows)

lemma db_first_unique:
  assumes "unique_fingerprints w"
  shows "unique_fingerprints (snd (db_first w fp))"
proof -
  obtain s w1 where ns: "next_step w = (s, w1)"
    by (cases "next_step w")
  have u1: "unique_fingerprints w1"
    using next_step_unique [OF assms] ns by simp
  have u2: "unique_fingerprints (arrive s w1)"
    using u1 by (rule arrive_unique)
  show ?thesis
    using ns u1 u2 by (auto simp: db_first_def split: db_step.split option.split)
qed

lemma db_first_kept: "rows_kept w (snd (db_first w fp))"
proof -
  obtain s w1 where ns: "next_step w = (s, w1)"
    by (cases "next_step w")
  have k1: "rows_kept w w1"
    using next_step_kept [of w] ns by simp
  have k2: "rows_kept w (arrive s w1)"
    using k1 arrive_kept by (rule rows_kept_trans)
  show ?thesis
    using ns k1 k2 by (auto simp: db_first_def split: db_step.split option.split)
qed

lemma db_create_unique:
  assumes "unique_fingerprints w"
  shows "unique_fingerprints (snd (db_create w r))"
proof -
  obtain s w1 where ns: "next_step w = (s, w1)"
    by (cases "next_step w")
  have u1: "unique_fingerprints w1"
    using next_step_unique [OF assms] ns by simp
  have u2: "unique_fingerprints (snd (insert_row r (arrive s w1)))"
    using u1 by (intro insert_row_unique arrive_unique)
  show ?thesis
    using ns u1 u2 by (auto simp: db_create_def split: db_step.split)
qed

lemma db_create_kept: "rows_kept w (snd (db_create w r))"
proof -
  obtain s w1 where ns: "next_step w = (s, w1)"
    by (cases "next_step w")
  have k1: "rows_kept w w1"
    using next_step_kept [of w] ns by simp
  have k2: "rows_kept w (arrive s w1)"
    using k1 arrive_kept by (rule rows_kept_trans)
  have k3: "rows_kept w (snd (insert_row r (arrive s w1)))"
    using k2 insert_row_kept by (rule rows_kept_trans)
  show ?thesis
    using ns k1 k3 by (auto simp: db_create_def split: db_step.split)
qed

lemma db_updates_unique:
  assumes "unique_fingerprints w"
  shows "unique_fingerprints (snd (db_updates w existing st en))"
proof -
  obtain s w1 where ns: "next_step w = (s, w1)"
    by (cases "next_step w")
  have u1: "unique_fingerprints w1"
    using next_step_unique [OF assms] ns by simp
  have u2: "unique_fingerprints (arrive s w1)"
    using u1 by (rule arrive_unique)
  show ?thesis
    using ns u1 u2
    by (auto simp: db_updates_def unique_fingerprints_def update_keeps_fingerprints
             split: db_step.split)
qed

lemma db_updates_kept: "rows_kept w (snd (db_updates w existing st en))"
proof -
  obtain s w1 where ns: "next_step w = (s, w1)"
    by (cases "next_step w")
  have k1: "rows_kept w w1"
    using next_step_kept [of w] ns by simp
  have k2: "rows_kept w (arrive s w1)"
    using k1 arrive_kept by (rule rows_kept_trans)
  show ?thesis
    using ns k1 k2
    by (auto simp: db_updates_def rows_kept_def update_keeps_immutable
             split: db_step.split)
qed

lemma process_alert_unique:
  assumes "unique_fingerprints w"
  shows "unique_fingerprints (fst (process_alert marshal w alert))"
proof -
  obtain res w1 where look: "db_first w (fingerprint alert) = (res, w1)"
    by (cases "db_first w (fingerprint alert)")
  have u1: "unique_fingerprints w1"
    using db_first_unique [OF assms, of "fingerprint alert"] look by simp
  have created: "unique_fingerprints w3"
    if "db_create (w1\<lparr>ticks := Suc (ticks w1)\<rparr>) r = (e, w3)" for r e w3
    using db_create_unique [of "w1\<lparr>ticks := Suc (ticks w1)\<rparr>" r] u1 that by simp
  have updated: "unique_fingerprints w2"
    if "db_updates w1 existing st en = (e, w2)" for existing st en e w2
    using db_updates_unique [OF u1, of existing st en] that by simp
  show ?thesis
  proof (cases res)
    case (Found existing)
    then show ?thesis
      using look u1 updated
      by (auto simp: process_alert_def split: prod.splits option.splits)
  next
    case ErrRecordNotFound
    then show ?thesis
      using look u1 created
      by (auto simp: process_alert_def time_Now_def
               split: prod.splits option.splits sum.splits)
  next
    case (OtherError err)
    then show ?thesis
      using look u1 by (simp add: process_alert_def)
  qed
qed

lemma process_alert_kept: "rows_kept w (fst (process_alert marshal w alert))"
proof -
  obtain res w1 where look: "db_first w (fingerprint alert) = (res, w1)"
    by (cases "db_first w (fingerprint alert)")
  have k1: "rows_kept w w1"
    using db_first_kept [of w "fingerprint alert"] look by simp
  have created: "rows_kept w w3"
    if "db_create (w1\<lparr>ticks := Suc (ticks w1)\<rparr>) r = (e, w3)" for r e w3
  proof -
    have "rows_kept w (w1\<lparr>ticks := Suc (ticks w1)\<rparr>)"
      using k1 by simp
    then have "rows_kept w (snd (db_create (w1\<lparr>ticks := Suc (ticks w1)\<rparr>) r))"
      using db_create_kept by (rule rows_kept_trans)
    then show ?thesis using that by simp
  qed
  have updated: "rows_kept w w2"
    if "db_updates w1 existing st en = (e, w2)" for existing st en e w2
  proof -
    have "rows_kept w (snd (db_updates w1 existing st en))"
      using k1 db_updates_kept by (rule rows_kept_trans)
    then show ?thesis using that by simp
  qed
  show ?thesis
  proof (cases res)
    case (Found existing)
    then show ?thesis
      using look k1 updated
      by (auto simp: process_alert_def split: prod.splits option.splits)
  next
    case ErrRecordNotFound
    then show ?thesis
      using look k1 created
      by (auto simp: process_alert_def time_Now_def
               split: prod.splits option.splits sum.splits)
  next
    case (OtherError err)
    then show ?thesis
      using look k1 by (simp add: process_alert_def)
  qed
qed

lemma process_alerts_unique:
  "unique_fingerprints w \<Longrightarrow> unique_fingerprints (fst (process_alerts marshal w batch))"
proof (induction batch arbitrary: w)
  case Nil
  then show ?case by simp
next
  case (Cons alert rest)
  obtain w' r where step: "process_alert marshal w alert = (w', r)"
    by (cases "process_alert marshal w alert")
  have "unique_fingerprints w'"
    using process_alert_unique [OF Cons.prems, of marshal alert] step by simp
  then show ?case
    using step Cons.IH [of w'] by (cases r) simp_all
qed

lemma process_alerts_kept: "rows_kept w (fst (process_alerts marshal w batch))"
proof (induction batch arbitrary: w)
  case Nil
  show ?case by (simp add: rows_kept_refl)
next
  case (Cons alert rest)
  obtain w' r where step: "process_alert marshal w alert = (w', r)"
    by (cases "process_alert marshal w alert")
  have here: "rows_kept w w'"
    using process_alert_kept [of w marshal alert] step by simp
  have "rows_kept w (fst (process_alerts marshal w' rest))"
    using here Cons.IH [of w'] by (rule rows_kept_trans)
  then show ?case
    using step here by (cases r) simp_all
qed

lemma handler_world:
  "fst (handler marshal w bound) =
     (case bound of
        Inl err \<Rightarrow> w
      | Inr webhook \<Rightarrow>
          fst (process_alerts marshal
                 (w\<lparr>irmWebhooksAlertmanagerTotal :=
                      irmWebhooksAlertmanagerTotal w + length (alerts webhook)\<rparr>)
                 (alerts webhook)))"
  by (simp add: handler_def split: sum.split prod.split option.split)

lemma handler_unique:
  "unique_fingerprints w \<Longrightarrow> unique_fingerprints (fst (handler marshal w bound))"
  using process_alerts_unique
    [of "w\<lparr>irmWebhooksAlertmanagerTotal := irmWebhooksAlertmanagerTotal w + n\<rparr>" for n]
  by (simp add: handler_world split: sum.split)

lemma handler_kept: "rows_kept w (fst (handler marshal w bound))"
proof (cases bound)
  case (Inl err)
  then show ?thesis by (simp add: handler_world rows_kept_refl)
next
  case (Inr webhook)
  let ?w0 = "w\<lparr>irmWebhooksAlertmanagerTotal :=
                  irmWebhooksAlertmanagerTotal w + length (alerts webhook)\<rparr>"
  have "rows_kept w ?w0"
    by (simp add: rows_kept_refl)
  then have "rows_kept w (fst (process_alerts marshal ?w0 (alerts webhook)))"
    using process_alerts_kept by (rule rows_kept_trans)
  then show ?thesis
    using Inr by (simp add: handler_world)
qed

lemma added_rows_are_first_sights:
  assumes "unique_fingerprints w'" and "rows_kept w w'"
  shows "\<forall>r \<in> set (drop (length (rows w)) (rows w')).
           Fingerprint r \<notin> set (map Fingerprint (rows w))"
proof -
  let ?n = "length (rows w)"
  obtain zs where split: "map immutable_columns (rows w') =
      map immutable_columns (rows w) @ zs"
    using assms(2) by (auto simp: rows_kept_def prefix_def)
  have "map immutable_columns (take ?n (rows w')) = map immutable_columns (rows w)"
    using arg_cong [OF split, of "take ?n"] by (simp add: take_map)
  then have "map (fst \<circ> snd) (map immutable_columns (take ?n (rows w'))) =
      map (fst \<circ> snd) (map immutable_columns (rows w))"
    by simp
  then have old: "map Fingerprint (take ?n (rows w')) = map Fingerprint (rows w)"
    by (simp add: immutable_columns_def comp_def)
  have "distinct (map Fingerprint (take ?n (rows w')) @
      map Fingerprint (drop ?n (rows w')))"
    using assms(1) unfolding unique_fingerprints_def
    by (simp only: map_append [symmetric] append_take_drop_id)
  then have "set (map Fingerprint (rows w)) \<inter>
      set (map Fingerprint (drop ?n (rows w'))) = {}"
    using old by simp
  then show ?thesis by auto
qed

text \<open>
  C5. From a table with at most one row per fingerprint, after any sequence of requests,
  also when calls to the database fail or other connections insert rows meanwhile: the
  table still has at most one row per fingerprint; every row that was there is still
  there, at its place, with its primary key, fingerprint, labels, annotations, starts-at
  and created-at unchanged, so that all that later events can change in it are status
  and ends-at; and every row that was added carries a fingerprint that had no row
  before, so a fingerprint gets its row once, when it is first seen.
\<close>

theorem store_invariants:
  "unique_fingerprints w \<longrightarrow>
     unique_fingerprints (serve marshal w requests) \<and>
     rows_kept w (serve marshal w requests) \<and>
     (\<forall>r \<in> set (drop (length (rows w)) (rows (serve marshal w requests))).
        Fingerprint r \<notin> set (map Fingerprint (rows w)))"
proof
  assume start: "unique_fingerprints w"
  have both: "unique_fingerprints (serve marshal w requests) \<and>
      rows_kept w (serve marshal w requests)"
    using start
  proof (induction requests arbitrary: w)
    case Nil
    then show ?case by (simp add: rows_kept_refl)
  next
    case (Cons bound rest)
    let ?w' = "fst (handler marshal w bound)"
    have inv': "unique_fingerprints ?w'"
      using Cons.prems by (rule handler_unique)
    have kept': "rows_kept w ?w'"
      by (rule handler_kept)
    have later: "unique_fingerprints (serve marshal ?w' rest) \<and>
        rows_kept ?w' (serve marshal ?w' rest)"
      using Cons.IH [OF inv'] .
    have "rows_kept w (serve marshal ?w' rest)"
      using kept' later by (blast intro: rows_kept_trans)
    then show ?case
      using later by simp
  qed
  then show "unique_fingerprints (serve marshal w requests) \<and>
      rows_kept w (serve marshal w requests) \<and>
      (\<forall>r \<in> set (drop (length (rows w)) (rows (serve marshal w requests))).
         Fingerprint r \<notin> set (map Fingerprint (rows w)))"
    using added_rows_are_first_sights [of "serve marshal w requests" w] by blast
qed

theorem store_invariants_witness:
  "unique_fingerprints busy_world
   \<and> unique_fingerprints
       (serve marshal_nil busy_world
          [Inr \<lparr>alerts = [bare_alert ''b7'' ''resolved'' 77, bare_alert ''a1'' ''firing'' 0]\<rparr>,
           Inl ''unexpected EOF'',
           Inr \<lparr>alerts = [bare_alert ''b7'' ''resolved'' 80]\<rparr>])
   \<and> rows_kept busy_world
       (serve marshal_nil busy_world
          [Inr \<lparr>alerts = [bare_alert ''b7'' ''resolved'' 77, bare_alert ''a1'' ''firing'' 0]\<rparr>,
           Inl ''unexpected EOF'',
           Inr \<lparr>alerts = [bare_alert ''b7'' ''resolved'' 80]\<rparr>])
   \<and> rows
       (serve marshal_nil busy_world
          [Inr \<lparr>alerts = [bare_alert ''b7'' ''resolved'' 77, bare_alert ''a1'' ''firing'' 0]\<rparr>,
           Inl ''unexpected EOF'',
           Inr \<lparr>alerts = [bare_alert ''b7'' ''resolved'' 80]\<rparr>]) =
       [\<lparr>ID = 1, Fingerprint = ''b7'', Status = ''resolved'', Labels = ''null'',
         Annotations = ''null'', StartsAt = 40, EndsAt = 77, CreatedAt = 1700000000\<rparr>,
        \<lparr>ID = 2, Fingerprint = ''a1'', Status = ''firing'', Labels = ''null'',
         Annotations = ''null'', StartsAt = 100, EndsAt = 0, CreatedAt = 1700000001\<rparr>]"
proof -
  let ?requests =
    "[Inr \<lparr>alerts = [bare_alert ''b7'' ''resolved'' 77, bare_alert ''a1'' ''firing'' 0]\<rparr>,
      Inl ''unexpected EOF'',
      Inr \<lparr>alerts = [bare_alert ''b7'' ''resolved'' 80]\<rparr>]"
  have start: "unique_fingerprints busy_world"
    by (simp add: unique_fingerprints_def busy_world_def)
  have after: "unique_fingerprints (serve marshal_nil busy_world ?requests) \<and>
      rows_kept busy_world (serve marshal_nil busy_world ?requests)"
    using store_invariants [of busy_world marshal_nil ?requests] start by blast
  have table: "rows (serve marshal_nil busy_world ?requests) =
       [\<lparr>ID = 1, Fingerprint = ''b7'', Status = ''resolved'', Labels = ''null'',
         Annotations = ''null'', StartsAt = 40, EndsAt = 77, CreatedAt = 1700000000\<rparr>,
        \<lparr>ID = 2, Fingerprint = ''a1'', Status = ''firing'', Labels = ''null'',
         Annotations = ''null'', StartsAt = 100, EndsAt = 0, CreatedAt = 1700000001\<rparr>]"
    by (simp add: handler_def process_alert_def store_defs example_defs)
  show ?thesis
    using start after table by blast
qed

section \<open>A failed insert\<close>

lemma process_alert_failed_counts:
  "process_alert marshal w alert = (w', Some resp) \<Longrightarrow>
     irmWebhooksAlertmanagerNewTotal w' = irmWebhooksAlertmanagerNewTotal w \<and>
     irmWebhooksAlertmanagerDuplicateTotal w' = irmWebhooksAlertmanagerDuplicateTotal w \<and>
     irmWebhooksAlertmanagerUpdatedTotal w' = irmWebhooksAlertmanagerUpdatedTotal w"
  by (auto simp: process_alert_def store_defs
           split: list.splits db_step.splits option.splits sum.splits if_splits)

lemma process_alert_insert_fails:
  assumes "db_first w (fingerprint alert) = (ErrRecordNotFound, w1)"
    and "marshal (labels alert) = Inr labelsJSON"
    and "marshal (annotations alert) = Inr annotationsJSON"
    and "db_create (snd (time_Now w1))
           \<lparr>ID = 0, Fingerprint = fingerprint alert, Status = status alert,
            Labels = labelsJSON, Annotations = annotationsJSON,
            StartsAt = startsAt alert, EndsAt = endsAt alert,
            CreatedAt = fst (time_Now w1)\<rparr> = (Some err, w2)"
  shows "process_alert marshal w alert =
           (w2, Some (StatusInternalServerError, H_error err))"
  using assms by (auto simp: process_alert_def split: prod.splits)

text \<open>
  C6, as stated, does not hold: a refused insert is not surfaced as an outcome of its
  event. The answer is one for the whole request. With \<open>a1\<close> raced first in the batch,
  the request is answered with 500 and the duplicate-key error and \<open>a2\<close> behind it is
  never processed (the table holds the stored row and the rival's, no row of \<open>a2\<close>); with
  \<open>a1\<close> raced last, after \<open>a2\<close> is stored, the answer is the very same, so it does not
  tell which event failed.
\<close>

theorem raced_insert_answers_request_counterexample:
  "handler marshal_nil
     (busy_world
        \<lparr>script := [Healthy,
                     Raced \<lparr>ID = 0, Fingerprint = ''a1'', Status = ''firing'',
                            Labels = ''null'', Annotations = ''null'', StartsAt = 100,
                            EndsAt = 0, CreatedAt = 1700000001\<rparr>]\<rparr>)
     (Inr \<lparr>alerts = [bare_alert ''a1'' ''firing'' 0, bare_alert ''a2'' ''firing'' 0]\<rparr>) =
     (busy_world
        \<lparr>rows :=
           [\<lparr>ID = 1, Fingerprint = ''b7'', Status = ''firing'', Labels = ''null'',
             Annotations = ''null'', StartsAt = 40, EndsAt = 0, CreatedAt = 1700000000\<rparr>,
            \<lparr>ID = 2, Fingerprint = ''a1'', Status = ''firing'', Labels = ''null'',
             Annotations = ''null'', StartsAt = 100, EndsAt = 0, CreatedAt = 1700000001\<rparr>],
         next_id := 4, ticks := 2, irmWebhooksAlertmanagerTotal := 3\<rparr>,
      (500, H_error duplicate_key))
   \<and> snd (handler marshal_nil
       (busy_world
          \<lparr>script := [Healthy, Healthy, Healthy,
                       Raced \<lparr>ID = 0, Fingerprint = ''a1'', Status = ''firing'',
                              Labels = ''null'', Annotations = ''null'', StartsAt = 100,
                              EndsAt = 0, CreatedAt = 1700000001\<rparr>]\<rparr>)
       (Inr \<lparr>alerts = [bare_alert ''a2'' ''firing'' 0, bare_alert ''a1'' ''firing'' 0]\<rparr>)) =
     (500, H_error duplicate_key)"
  by (simp add: handler_def process_alert_def store_defs example_defs)

text \<open>
  C6, amended. Take any batch in which the events before \<open>alert\<close> are processed without
  error, the lookup of \<open>alert\<close> finds no row, and its insert then fails with an error
  \<open>err\<close>, as it does with the duplicate-key error when another connection has inserted
  the same fingerprint in between. The handler does not retry the event as an update and
  does not swallow the failure: it answers the whole request with 500 and \<open>err\<close> as the
  error and returns, leaving the world as the refused insert left it, so that the events
  behind \<open>alert\<close> are not processed; and it counts the event neither as new nor as
  duplicate nor as updated.
\<close>

theorem failed_insert_is_reported:
  assumes "process_alerts marshal
             (w\<lparr>irmWebhooksAlertmanagerTotal :=
                  irmWebhooksAlertmanagerTotal w + length (pre @ alert # post)\<rparr>) pre =
             (w1, None)"
    and "db_first w1 (fingerprint alert) = (ErrRecordNotFound, w2)"
    and "marshal (labels alert) = Inr labelsJSON"
    and "marshal (annotations alert) = Inr annotationsJSON"
    and "db_create (snd (time_Now w2))
           \<lparr>ID = 0, Fingerprint = fingerprint alert, Status = status alert,
            Labels = labelsJSON, Annotations = annotationsJSON,
            StartsAt = startsAt alert, EndsAt = endsAt alert,
            CreatedAt = fst (time_Now w2)\<rparr> = (Some err, w3)"
  shows "handler marshal w (Inr \<lparr>alerts = pre @ alert # post\<rparr>) =
           (w3, (StatusInternalServerError, H_error err))
       \<and> irmWebhooksAlertmanagerNewTotal w3 = irmWebhooksAlertmanagerNewTotal w1
       \<and> irmWebhooksAlertmanagerDuplicateTotal w3 = irmWebhooksAlertmanagerDuplicateTotal w1
       \<and> irmWebhooksAlertmanagerUpdatedTotal w3 = irmWebhooksAlertmanagerUpdatedTotal w1"
proof -
  have failing: "process_alert marshal w1 alert =
      (w3, Some (StatusInternalServerError, H_error err))"
    using assms(2-5) by (rule process_alert_insert_fails)
  have "process_alerts marshal
      (w\<lparr>irmWebhooksAlertmanagerTotal :=
           irmWebhooksAlertmanagerTotal w + length (pre @ alert # post)\<rparr>)
      (pre @ alert # post) = (w3, Some (StatusInternalServerError, H_error err))"
    using assms(1) failing by (rule process_alerts_stop)
  then have "handler marshal w (Inr \<lparr>alerts = pre @ alert # post\<rparr>) =
      (w3, (StatusInternalServerError, H_error err))"
    by (simp add: handler_def)
  then show ?thesis
    using process_alert_failed_counts [OF failing] by simp
qed

text \<open>
  The race itself: the lookup of \<open>a1\<close> finds nothing, another connection commits its
  row for \<open>a1\<close> before the insert runs, the insert is refused by the unique index, and
  the request is answered with that error.
\<close>

theorem failed_insert_is_reported_witness:
  "process_alerts marshal_nil
     ((busy_world
         \<lparr>script := [Healthy, Healthy,
                      Raced \<lparr>ID = 0, Fingerprint = ''a1'', Status = ''firing'',
                             Labels = ''null'', Annotations = ''null'', StartsAt = 100,
                             EndsAt = 0, CreatedAt = 1700000001\<rparr>]\<rparr>)
        \<lparr>irmWebhooksAlertmanagerTotal := 4\<rparr>)
     [bare_alert ''b7'' ''firing'' 0] =
     (busy_world
        \<lparr>script := [Healthy,
                     Raced \<lparr>ID = 0, Fingerprint = ''a1'', Status = ''firing'',
                            Labels = ''null'', Annotations = ''null'', StartsAt = 100,
                            EndsAt = 0, CreatedAt = 1700000001\<rparr>],
         irmWebhooksAlertmanagerTotal := 4,
         irmWebhooksAlertmanagerDuplicateTotal := 1\<rparr>, None)
   \<and> db_first
       (busy_world
          \<lparr>script := [Healthy,
                       Raced \<lparr>ID = 0, Fingerprint = ''a1'', Status = ''firing'',
                              Labels = ''null'', Annotations = ''null'', StartsAt = 100,
                              EndsAt = 0, CreatedAt = 1700000001\<rparr>],
           irmWebhooksAlertmanagerTotal := 4,
           irmWebhooksAlertmanagerDuplicateTotal := 1\<rparr>) ''a1'' =
     (ErrRecordNotFound,
      busy_world
        \<lparr>script := [Raced \<lparr>ID = 0, Fingerprint = ''a1'', Status = ''firing'',
                            Labels = ''null'', Annotations = ''null'', StartsAt = 100,
                            EndsAt = 0, CreatedAt = 1700000001\<rparr>],
         irmWebhooksAlertmanagerTotal := 4,
         irmWebhooksAlertmanagerDuplicateTotal := 1\<rparr>)
   \<and> handler marshal_nil
       (busy_world
          \<lparr>script := [Healthy, Healthy,
                       Raced \<lparr>ID = 0, Fingerprint = ''a1'', Status = ''firing'',
                              Labels = ''null'', Annotations = ''null'', StartsAt = 100,
                              EndsAt = 0, CreatedAt = 1700000001\<rparr>]\<rparr>)
       (Inr \<lparr>alerts = [bare_alert ''b7'' ''firing'' 0, bare_alert ''a1'' ''firing'' 0,
                        bare_alert ''a2'' ''firing'' 0]\<rparr>) =
     (busy_world
        \<lparr>rows := rows busy_world @
           [\<lparr>ID = 2, Fingerprint = ''a1'', Status = ''firing'', Labels = ''null'',
             Annotations = ''null'', StartsAt = 100, EndsAt = 0, CreatedAt = 1700000001\<rparr>],
         next_id := 4, ticks := 2,
         irmWebhooksAlertmanagerTotal := 4,
         irmWebhooksAlertmanagerDuplicateTotal := 1\<rparr>,
      (500, H_error duplicate_key))"
proof -
  let ?rival = "\<lparr>ID = 0, Fingerprint = ''a1'', Status = ''firing'', Labels = ''null'',
      Annotations = ''null'', StartsAt = 100, EndsAt = 0, CreatedAt = 1700000001\<rparr>"
  let ?pre = "[bare_alert ''b7'' ''firing'' 0]"
  let ?alert = "bare_alert ''a1'' ''firing'' 0"
  let ?post = "[bare_alert ''a2'' ''firing'' 0]"
  let ?w = "busy_world\<lparr>script := [Healthy, Healthy, Raced ?rival]\<rparr>"
  let ?w1 = "busy_world\<lparr>script := [Healthy, Raced ?rival],
      irmWebhooksAlertmanagerTotal := 4, irmWebhooksAlertmanagerDuplicateTotal := 1\<rparr>"
  let ?w2 = "busy_world\<lparr>script := [Raced ?rival],
      irmWebhooksAlertmanagerTotal := 4, irmWebhooksAlertmanagerDuplicateTotal := 1\<rparr>"
  let ?w3 = "busy_world\<lparr>rows := rows busy_world @ [?rival\<lparr>ID := 2\<rparr>],
      next_id := 4, ticks := 2,
      irmWebhooksAlertmanagerTotal := 4, irmWebhooksAlertmanagerDuplicateTotal := 1\<rparr>"
  have before: "process_alerts marshal_nil
      (?w\<lparr>irmWebhooksAlertmanagerTotal :=
            irmWebhooksAlertmanagerTotal ?w + length (?pre @ ?alert # ?post)\<rparr>) ?pre =
      (?w1, None)"
    by (simp add: process_alert_def store_defs example_defs)
  have lookup: "db_first ?w1 (fingerprint ?alert) = (ErrRecordNotFound, ?w2)"
    by (simp add: store_defs example_defs)
  have m1: "marshal_nil (labels ?alert) = Inr ''null''"
    and m2: "marshal_nil (annotations ?alert) = Inr ''null''"
    by (simp_all add: marshal_nil_def)
  have refused: "db_create (snd (time_Now ?w2))
      \<lparr>ID = 0, Fingerprint = fingerprint ?alert, Status = status ?alert,
       Labels = ''null'', Annotations = ''null'',
       StartsAt = startsAt ?alert, EndsAt = endsAt ?alert,
       CreatedAt = fst (time_Now ?w2)\<rparr> = (Some duplicate_key, ?w3)"
    by (simp add: store_defs example_defs numeral_2_eq_2 numeral_3_eq_3)
  note inst = failed_insert_is_reported [OF before lookup m1 m2 refused]
  have whole: "handler marshal_nil ?w
      (Inr \<lparr>alerts = [bare_alert ''b7'' ''firing'' 0, bare_alert ''a1'' ''firing'' 0,
                       bare_alert ''a2'' ''firing'' 0]\<rparr>) =
      (?w3, (500, H_error duplicate_key))"
    using inst [THEN conjunct1] by (simp add: StatusInternalServerError_def)
  have first: "process_alerts marshal_nil (?w\<lparr>irmWebhooksAlertmanagerTotal := 4\<rparr>) ?pre =
      (?w1, None)"
    by (simp add: process_alert_def store_defs example_defs)
  have second: "db_first ?w1 ''a1'' = (ErrRecordNotFound, ?w2)"
    by (simp add: store_defs example_defs)
  show ?thesis
    using first second whole by simp
qed

section \<open>Counters and persistence\<close>

text \<open>
  C7, as stated, does not hold for every event. An event whose lookup fails raises none
  of the three classification counters: the request is answered with 500 and only the
  received counter has moved.
\<close>

theorem failed_event_not_classified_counterexample:
  "handler marshal_nil (quiet_world\<lparr>script := [Broken ''connection refused'']\<rparr>)
     (Inr \<lparr>alerts = [bare_alert ''a1'' ''firing'' 0]\<rparr>) =
     (quiet_world\<lparr>irmWebhooksAlertmanagerTotal := 1\<rparr>,
      (500, H_error ''connection refused''))
   \<and> irmWebhooksAlertmanagerNewTotal (quiet_world\<lparr>irmWebhooksAlertmanagerTotal := 1\<rparr>) = 0
   \<and> irmWebhooksAlertmanagerDuplicateTotal
       (quiet_world\<lparr>irmWebhooksAlertmanagerTotal := 1\<rparr>) = 0
   \<and> irmWebhooksAlertmanagerUpdatedTotal
       (quiet_world\<lparr>irmWebhooksAlertmanagerTotal := 1\<rparr>) = 0"
  by (simp add: handler_def process_alert_def store_defs example_defs)

lemma db_first_counters:
  "db_first w fp = (res, w1) \<Longrightarrow>
     irmWebhooksAlertmanagerNewTotal w1 = irmWebhooksAlertmanagerNewTotal w \<and>
     irmWebhooksAlertmanagerDuplicateTotal w1 = irmWebhooksAlertmanagerDuplicateTotal w \<and>
     irmWebhooksAlertmanagerUpdatedTotal w1 = irmWebhooksAlertmanagerUpdatedTotal w"
  by (auto simp: store_defs split: list.splits db_step.splits option.splits if_splits)

lemma db_create_counters:
  "db_create w r = (e, w1) \<Longrightarrow>
     irmWebhooksAlertmanagerNewTotal w1 = irmWebhooksAlertmanagerNewTotal w \<and>
     irmWebhooksAlertmanagerDuplicateTotal w1 = irmWebhooksAlertmanagerDuplicateTotal w \<and>
     irmWebhooksAlertmanagerUpdatedTotal w1 = irmWebhooksAlertmanagerUpdatedTotal w"
  by (auto simp: store_defs split: list.splits db_step.splits option.splits if_splits)

lemma db_updates_counters:
  "db_updates w existing st en = (e, w1) \<Longrightarrow>
     irmWebhooksAlertmanagerNewTotal w1 = irmWebhooksAlertmanagerNewTotal w \<and>
     irmWebhooksAlertmanagerDuplicateTotal w1 = irmWebhooksAlertmanagerDuplicateTotal w \<and>
     irmWebhooksAlertmanagerUpdatedTotal w1 = irmWebhooksAlertmanagerUpdatedTotal w"
  by (auto simp: store_defs split: list.splits db_step.splits option.splits if_splits)

lemma process_alert_classified:
  assumes "process_alert marshal w alert = (w', None)"
  shows
    "(irmWebhooksAlertmanagerNewTotal w' = irmWebhooksAlertmanagerNewTotal w + 1 \<and>
      irmWebhooksAlertmanagerDuplicateTotal w' = irmWebhooksAlertmanagerDuplicateTotal w \<and>
      irmWebhooksAlertmanagerUpdatedTotal w' = irmWebhooksAlertmanagerUpdatedTotal w)
   \<or> (irmWebhooksAlertmanagerNewTotal w' = irmWebhooksAlertmanagerNewTotal w \<and>
      irmWebhooksAlertmanagerDuplicateTotal w' = irmWebhooksAlertmanagerDuplicateTotal w + 1 \<and>
      irmWebhooksAlertmanagerUpdatedTotal w' = irmWebhooksAlertmanagerUpdatedTotal w)
   \<or> (irmWebhooksAlertmanagerNewTotal w' = irmWebhooksAlertmanagerNewTotal w \<and>
      irmWebhooksAlertmanagerDuplicateTotal w' = irmWebhooksAlertmanagerDuplicateTotal w \<and>
      irmWebhooksAlertmanagerUpdatedTotal w' = irmWebhooksAlertmanagerUpdatedTotal w + 1)"
proof -
  obtain res w1 where look: "db_first w (fingerprint alert) = (res, w1)"
    by (cases "db_first w (fingerprint alert)")
  note c1 = db_first_counters [OF look]
  show ?thesis
  proof (cases res)
    case (OtherError err)
    then show ?thesis
      using assms look by (simp add: process_alert_def)
  next
    case (Found existing)
    show ?thesis
    proof (cases "Status existing = status alert")
      case True
      then show ?thesis
        using assms look Found c1 by (auto simp: process_alert_def)
    next
      case False
      obtain e w2 where upd: "db_updates w1 existing (status alert) (endsAt alert) = (e, w2)"
        by (cases "db_updates w1 existing (status alert) (endsAt alert)")
      note c2 = db_updates_counters [OF upd]
      show ?thesis
        using assms look Found False upd c1 c2
        by (cases e) (auto simp: process_alert_def)
    qed
  next
    case ErrRecordNotFound
    obtain now w2 where clock: "time_Now w1 = (now, w2)"
      by (cases "time_Now w1")
    have c2: "irmWebhooksAlertmanagerNewTotal w2 = irmWebhooksAlertmanagerNewTotal w1 \<and>
        irmWebhooksAlertmanagerDuplicateTotal w2 = irmWebhooksAlertmanagerDuplicateTotal w1 \<and>
        irmWebhooksAlertmanagerUpdatedTotal w2 = irmWebhooksAlertmanagerUpdatedTotal w1"
      using clock by (auto simp: time_Now_def)
    have c3: "irmWebhooksAlertmanagerNewTotal w3 = irmWebhooksAlertmanagerNewTotal w \<and>
        irmWebhooksAlertmanagerDuplicateTotal w3 = irmWebhooksAlertmanagerDuplicateTotal w \<and>
        irmWebhooksAlertmanagerUpdatedTotal w3 = irmWebhooksAlertmanagerUpdatedTotal w"
      if "db_create w2 r = (e, w3)" for r e w3
      using db_create_counters [OF that] c1 c2 by simp
    show ?thesis
      using assms look ErrRecordNotFound clock c3
      by (auto simp: process_alert_def split: sum.splits option.splits prod.splits)
  qed
qed

lemma new_means_inserted:
  assumes "process_alert marshal w alert = (w', resp)"
    and "irmWebhooksAlertmanagerNewTotal w' = irmWebhooksAlertmanagerNewTotal w + 1"
  shows "\<exists>w1 w2 w3 now labelsJSON annotationsJSON.
           db_first w (fingerprint alert) = (ErrRecordNotFound, w1)
         \<and> time_Now w1 = (now, w2)
         \<and> db_create w2
              \<lparr>ID = 0, Fingerprint = fingerprint alert, Status = status alert,
               Labels = labelsJSON, Annotations = annotationsJSON,
               StartsAt = startsAt alert, EndsAt = endsAt alert, CreatedAt = now\<rparr> =
             (None, w3)
         \<and> w' = w3\<lparr>irmWebhooksAlertmanagerNewTotal :=
                       irmWebhooksAlertmanagerNewTotal w3 + 1\<rparr>
         \<and> resp = None"
proof -
  obtain res w1 where look: "db_first w (fingerprint alert) = (res, w1)"
    by (cases "db_first w (fingerprint alert)")
  have same1: "irmWebhooksAlertmanagerNewTotal w1 = irmWebhooksAlertmanagerNewTotal w"
    using db_first_counters [OF look] by simp
  have upd: "irmWebhooksAlertmanagerNewTotal w2 = irmWebhooksAlertmanagerNewTotal w1"
    if "db_updates w1 existing st en = (e, w2)" for existing st en e w2
    using db_updates_counters [OF that] by simp
  have cre: "irmWebhooksAlertmanagerNewTotal w3 = irmWebhooksAlertmanagerNewTotal w1"
    if "db_create (snd (time_Now w1)) r = (e, w3)" for r e w3
    using db_create_counters [OF that] by (simp add: time_Now_def)
  show ?thesis
  proof (cases res)
    case (Found existing)
    then have False
      using assms look same1 upd
      by (auto simp: process_alert_def split: prod.splits option.splits if_splits)
    then show ?thesis ..
  next
    case (OtherError err)
    then have False
      using assms look same1 by (simp add: process_alert_def)
    then show ?thesis ..
  next
    case ErrRecordNotFound
    show ?thesis
    proof (cases "marshal (labels alert)")
      case (Inl e)
      then have False
        using assms look same1 ErrRecordNotFound by (simp add: process_alert_def)
      then show ?thesis ..
    next
      case labelsJSON: (Inr lj)
      show ?thesis
      proof (cases "marshal (annotations alert)")
        case (Inl e)
        then have False
          using assms look same1 ErrRecordNotFound labelsJSON
          by (simp add: process_alert_def)
        then show ?thesis ..
      next
        case annotationsJSON: (Inr aj)
        obtain now w2 where clock: "time_Now w1 = (now, w2)"
          by (cases "time_Now w1")
        obtain e w3 where ins: "db_create w2
            \<lparr>ID = 0, Fingerprint = fingerprint alert, Status = status alert,
             Labels = lj, Annotations = aj,
             StartsAt = startsAt alert, EndsAt = endsAt alert, CreatedAt = now\<rparr> = (e, w3)"
          by (cases "db_create w2
            \<lparr>ID = 0, Fingerprint = fingerprint alert, Status = status alert,
             Labels = lj, Annotations = aj,
             StartsAt = startsAt alert, EndsAt = endsAt alert, CreatedAt = now\<rparr>")
        have same3: "irmWebhooksAlertmanagerNewTotal w3 = irmWebhooksAlertmanagerNewTotal w1"
          using cre [of _ e w3] ins clock by simp
        show ?thesis
        proof (cases e)
          case (Some err)
          then have False
            using assms look same1 same3 ErrRecordNotFound labelsJSON annotationsJSON
              clock ins
            by (simp add: process_alert_def)
          then show ?thesis ..
        next
          case None
          then have "w' = w3\<lparr>irmWebhooksAlertmanagerNewTotal :=
                irmWebhooksAlertmanagerNewTotal w3 + 1\<rparr> \<and> resp = None"
            using assms(1) look ErrRecordNotFound labelsJSON annotationsJSON clock ins
            by (simp add: process_alert_def)
          then show ?thesis
            using look ErrRecordNotFound clock ins None by blast
        qed
      qed
    qed
  qed
qed

lemma updated_means_updated:
  assumes "process_alert marshal w alert = (w', resp)"
    and "irmWebhooksAlertmanagerUpdatedTotal w' = irmWebhooksAlertmanagerUpdatedTotal w + 1"
  shows "\<exists>w1 w2 existing.
           db_first w (fingerprint alert) = (Found existing, w1)
         \<and> db_updates w1 existing (status alert) (endsAt alert) = (None, w2)
         \<and> w' = w2\<lparr>irmWebhooksAlertmanagerUpdatedTotal :=
                       irmWebhooksAlertmanagerUpdatedTotal w2 + 1\<rparr>
         \<and> resp = None"
proof -
  obtain res w1 where look: "db_first w (fingerprint alert) = (res, w1)"
    by (cases "db_first w (fingerprint alert)")
  note c1 = db_first_counters [OF look]
  show ?thesis
  proof (cases res)
    case (OtherError err)
    then have False
      using assms look c1 by (simp add: process_alert_def)
    then show ?thesis ..
  next
    case ErrRecordNotFound
    have c3: "irmWebhooksAlertmanagerUpdatedTotal w3 = irmWebhooksAlertmanagerUpdatedTotal w"
      if "db_create (w1\<lparr>ticks := Suc (ticks w1)\<rparr>) r = (e, w3)" for r e w3
      using db_create_counters [OF that] c1 by simp
    have False
      using assms look ErrRecordNotFound c1 c3
      by (auto simp: process_alert_def time_Now_def
               split: sum.splits option.splits prod.splits)
    then show ?thesis ..
  next
    case (Found existing)
    show ?thesis
    proof (cases "Status existing = status alert")
      case True
      then have False
        using assms look Found c1 by (auto simp: process_alert_def)
      then show ?thesis ..
    next
      case False
      obtain e w2 where upd: "db_updates w1 existing (status alert) (endsAt alert) = (e, w2)"
        by (cases "db_updates w1 existing (status alert) (endsAt alert)")
      note c2 = db_updates_counters [OF upd]
      show ?thesis
      proof (cases e)
        case (Some err)
        then have False
          using assms look Found False upd c1 c2 by (simp add: process_alert_def)
        then show ?thesis ..
      next
        case None
        then have "w' = w2\<lparr>irmWebhooksAlertmanagerUpdatedTotal :=
              irmWebhooksAlertmanagerUpdatedTotal w2 + 1\<rparr> \<and> resp = None"
          using assms(1) look Found False upd by (simp add: process_alert_def)
        then show ?thesis
          using look Found upd None by blast
      qed
    qed
  qed
qed

lemma db_create_stored:
  "db_create w r = (None, w') \<Longrightarrow> rows w' \<noteq> [] \<and> (\<exists>i. last (rows w') = r\<lparr>ID := i\<rparr>)"
  by (auto simp: store_defs split: list.splits db_step.splits if_splits)

lemma db_updates_written:
  "db_updates w existing st en = (None, w') \<Longrightarrow>
     \<forall>r \<in> set (rows w'). ID r = ID existing \<longrightarrow> Status r = st \<and> EndsAt r = en"
  by (auto simp: store_defs split: list.splits db_step.splits if_splits)

text \<open>
  C7, amended. For every event: when its processing ends without error, exactly one of
  the three classification counters has grown, by exactly one; when it fails, none has.
  The counter is raised on the world the store operation returned, hence after it, and
  a raised new counter means that the lookup found no row and the insert of the event's
  row returned without error (the row is then the last of the table), a raised updated
  counter that the lookup found a row and the update of its status and ends-at returned
  without error (every row with that primary key then carries the event's status and
  ends-at).
\<close>

theorem counters_follow_persistence:
  assumes "process_alert marshal w alert = (w', resp)"
  shows
    "(resp = None \<longrightarrow>
        (irmWebhooksAlertmanagerNewTotal w' = irmWebhooksAlertmanagerNewTotal w + 1 \<and>
         irmWebhooksAlertmanagerDuplicateTotal w' = irmWebhooksAlertmanagerDuplicateTotal w \<and>
         irmWebhooksAlertmanagerUpdatedTotal w' = irmWebhooksAlertmanagerUpdatedTotal w)
      \<or> (irmWebhooksAlertmanagerNewTotal w' = irmWebhooksAlertmanagerNewTotal w \<and>
         irmWebhooksAlertmanagerDuplicateTotal w' =
           irmWebhooksAlertmanagerDuplicateTotal w + 1 \<and>
         irmWebhooksAlertmanagerUpdatedTotal w' = irmWebhooksAlertmanagerUpdatedTotal w)
      \<or> (irmWebhooksAlertmanagerNewTotal w' = irmWebhooksAlertmanagerNewTotal w \<and>
         irmWebhooksAlertmanagerDuplicateTotal w' = irmWebhooksAlertmanagerDuplicateTotal w \<and>
         irmWebhooksAlertmanagerUpdatedTotal w' =
           irmWebhooksAlertmanagerUpdatedTotal w + 1))
   \<and> (resp \<noteq> None \<longrightarrow>
        irmWebhooksAlertmanagerNewTotal w' = irmWebhooksAlertmanagerNewTotal w \<and>
        irmWebhooksAlertmanagerDuplicateTotal w' = irmWebhooksAlertmanagerDuplicateTotal w \<and>
        irmWebhooksAlertmanagerUpdatedTotal w' = irmWebhooksAlertmanagerUpdatedTotal w)
   \<and> (irmWebhooksAlertmanagerNewTotal w' = irmWebhooksAlertmanagerNewTotal w + 1 \<longrightarrow>
        (\<exists>w1 w2 w3 now labelsJSON annotationsJSON.
            db_first w (fingerprint alert) = (ErrRecordNotFound, w1)
          \<and> time_Now w1 = (now, w2)
          \<and> db_create w2
               \<lparr>ID = 0, Fingerprint = fingerprint alert, Status = status alert,
                Labels = labelsJSON, Annotations = annotationsJSON,
                StartsAt = startsAt alert, EndsAt = endsAt alert, CreatedAt = now\<rparr> =
              (None, w3)
          \<and> w' = w3\<lparr>irmWebhooksAlertmanagerNewTotal :=
                        irmWebhooksAlertmanagerNewTotal w3 + 1\<rparr>
          \<and> rows w' \<noteq> []
          \<and> (\<exists>i. last (rows w') =
                 \<lparr>ID = i, Fingerprint = fingerprint alert, Status = status alert,
                  Labels = labelsJSON, Annotations = annotationsJSON,
                  StartsAt = startsAt alert, EndsAt = endsAt alert, CreatedAt = now\<rparr>)))
   \<and> (irmWebhooksAlertmanagerUpdatedTotal w' = irmWebhooksAlertmanagerUpdatedTotal w + 1 \<longrightarrow>
        (\<exists>w1 w2 existing.
            db_first w (fingerprint alert) = (Found existing, w1)
          \<and> db_updates w1 existing (status alert) (endsAt alert) = (None, w2)
          \<and> w' = w2\<lparr>irmWebhooksAlertmanagerUpdatedTotal :=
                        irmWebhooksAlertmanagerUpdatedTotal w2 + 1\<rparr>
          \<and> (\<forall>r \<in> set (rows w'). ID r = ID existing \<longrightarrow>
                 Status r = status alert \<and> EndsAt r = endsAt alert)))"
proof (intro conjI impI)
  assume "resp = None"
  then show "(irmWebhooksAlertmanagerNewTotal w' = irmWebhooksAlertmanagerNewTotal w + 1 \<and>
         irmWebhooksAlertmanagerDuplicateTotal w' = irmWebhooksAlertmanagerDuplicateTotal w \<and>
         irmWebhooksAlertmanagerUpdatedTotal w' = irmWebhooksAlertmanagerUpdatedTotal w)
      \<or> (irmWebhooksAlertmanagerNewTotal w' = irmWebhooksAlertmanagerNewTotal w \<and>
         irmWebhooksAlertmanagerDuplicateTotal w' =
           irmWebhooksAlertmanagerDuplicateTotal w + 1 \<and>
         irmWebhooksAlertmanagerUpdatedTotal w' = irmWebhooksAlertmanagerUpdatedTotal w)
      \<or> (irmWebhooksAlertmanagerNewTotal w' = irmWebhooksAlertmanagerNewTotal w \<and>
         irmWebhooksAlertmanagerDuplicateTotal w' = irmWebhooksAlertmanagerDuplicateTotal w \<and>
         irmWebhooksAlertmanagerUpdatedTotal w' =
           irmWebhooksAlertmanagerUpdatedTotal w + 1)"
    using assms process_alert_classified [of marshal w alert w'] by simp
next
  assume "resp \<noteq> None"
  then obtain r where "resp = Some r" by (cases resp) auto
  then have failed: "process_alert marshal w alert = (w', Some r)"
    using assms by simp
  show "irmWebhooksAlertmanagerNewTotal w' = irmWebhooksAlertmanagerNewTotal w"
    and "irmWebhooksAlertmanagerDuplicateTotal w' = irmWebhooksAlertmanagerDuplicateTotal w"
    and "irmWebhooksAlertmanagerUpdatedTotal w' = irmWebhooksAlertmanagerUpdatedTotal w"
    using process_alert_failed_counts [OF failed] by simp_all
next
  assume raised: "irmWebhooksAlertmanagerNewTotal w' = irmWebhooksAlertmanagerNewTotal w + 1"
  from new_means_inserted [OF assms raised]
  obtain w1 w2 w3 now labelsJSON annotationsJSON where
    look: "db_first w (fingerprint alert) = (ErrRecordNotFound, w1)"
    and clock: "time_Now w1 = (now, w2)"
    and ins: "db_create w2
               \<lparr>ID = 0, Fingerprint = fingerprint alert, Status = status alert,
                Labels = labelsJSON, Annotations = annotationsJSON,
                StartsAt = startsAt alert, EndsAt = endsAt alert, CreatedAt = now\<rparr> =
              (None, w3)"
    and final: "w' = w3\<lparr>irmWebhooksAlertmanagerNewTotal :=
                        irmWebhooksAlertmanagerNewTotal w3 + 1\<rparr>"
    by blast
  have stored: "rows w' \<noteq> [] \<and> (\<exists>i. last (rows w') =
                 \<lparr>ID = i, Fingerprint = fingerprint alert, Status = status alert,
                  Labels = labelsJSON, Annotations = annotationsJSON,
                  StartsAt = startsAt alert, EndsAt = endsAt alert, CreatedAt = now\<rparr>)"
    using db_create_stored [OF ins] final by simp
  show "\<exists>w1 w2 w3 now labelsJSON annotationsJSON.
            db_first w (fingerprint alert) = (ErrRecordNotFound, w1)
          \<and> time_Now w1 = (now, w2)
          \<and> db_create w2
               \<lparr>ID = 0, Fingerprint = fingerprint alert, Status = status alert,
                Labels = labelsJSON, Annotations = annotationsJSON,
                StartsAt = startsAt alert, EndsAt = endsAt alert, CreatedAt = now\<rparr> =
              (None, w3)
          \<and> w' = w3\<lparr>irmWebhooksAlertmanagerNewTotal :=
                        irmWebhooksAlertmanagerNewTotal w3 + 1\<rparr>
          \<and> rows w' \<noteq> []
          \<and> (\<exists>i. last (rows w') =
                 \<lparr>ID = i, Fingerprint = fingerprint alert, Status = status alert,
                  Labels = labelsJSON, Annotations = annotationsJSON,
                  StartsAt = startsAt alert, EndsAt = endsAt alert, CreatedAt = now\<rparr>)"
    using look clock ins final stored by blast
next
  assume raised: "irmWebhooksAlertmanagerUpdatedTotal w' =
      irmWebhooksAlertmanagerUpdatedTotal w + 1"
  from updated_means_updated [OF assms raised]
  obtain w1 w2 existing where
    look: "db_first w (fingerprint alert) = (Found existing, w1)"
    and upd: "db_updates w1 existing (status alert) (endsAt alert) = (None, w2)"
    and final: "w' = w2\<lparr>irmWebhooksAlertmanagerUpdatedTotal :=
                        irmWebhooksAlertmanagerUpdatedTotal w2 + 1\<rparr>"
    by blast
  have written: "\<forall>r \<in> set (rows w'). ID r = ID existing \<longrightarrow>
      Status r = status alert \<and> EndsAt r = endsAt alert"
    using db_updates_written [OF upd] final by simp
  show "\<exists>w1 w2 existing.
            db_first w (fingerprint alert) = (Found existing, w1)
          \<and> db_updates w1 existing (status alert) (endsAt alert) = (None, w2)
          \<and> w' = w2\<lparr>irmWebhooksAlertmanagerUpdatedTotal :=
                        irmWebhooksAlertmanagerUpdatedTotal w2 + 1\<rparr>
          \<and> (\<forall>r \<in> set (rows w'). ID r = ID existing \<longrightarrow>
                 Status r = status alert \<and> EndsAt r = endsAt alert)"
    using look upd final written by blast
qed

theorem counters_follow_persistence_witness:
  "process_alert marshal_nil busy_world (bare_alert ''a1'' ''firing'' 0) =
     (busy_world
        \<lparr>rows := rows busy_world @
           [\<lparr>ID = 2, Fingerprint = ''a1'', Status = ''firing'', Labels = ''null'',
             Annotations = ''null'', StartsAt = 100, EndsAt = 0, CreatedAt = 1700000001\<rparr>],
         next_id := 3, ticks := 2, irmWebhooksAlertmanagerNewTotal := 2\<rparr>, None)
   \<and> (\<exists>w1 w2 w3 now labelsJSON annotationsJSON.
         db_first busy_world ''a1'' = (ErrRecordNotFound, w1)
       \<and> time_Now w1 = (now, w2)
       \<and> db_create w2
            \<lparr>ID = 0, Fingerprint = ''a1'', Status = ''firing'',
             Labels = labelsJSON, Annotations = annotationsJSON,
             StartsAt = 100, EndsAt = 0, CreatedAt = now\<rparr> = (None, w3))
   \<and> process_alert marshal_nil busy_world (bare_alert ''b7'' ''resolved'' 77) =
     (busy_world
        \<lparr>rows := [\<lparr>ID = 1, Fingerprint = ''b7'', Status = ''resolved'', Labels = ''null'',
                   Annotations = ''null'', StartsAt = 40, EndsAt = 77,
                   CreatedAt = 1700000000\<rparr>],
         irmWebhooksAlertmanagerUpdatedTotal := 1\<rparr>, None)
   \<and> (\<exists>w1 w2 existing.
         db_first busy_world ''b7'' = (Found existing, w1)
       \<and> db_updates w1 existing ''resolved'' 77 = (None, w2))
   \<and> process_alert marshal_nil (busy_world\<lparr>script := [Healthy, Broken ''deadlock detected'']\<rparr>)
       (bare_alert ''b7'' ''resolved'' 77) =
     (busy_world, Some (500, H_error ''deadlock detected''))
   \<and> irmWebhooksAlertmanagerNewTotal busy_world = 1
   \<and> irmWebhooksAlertmanagerDuplicateTotal busy_world = 0
   \<and> irmWebhooksAlertmanagerUpdatedTotal busy_world = 0"
proof -
  let ?new = "bare_alert ''a1'' ''firing'' 0"
  let ?upd = "bare_alert ''b7'' ''resolved'' 77"
  let ?wa = "busy_world
        \<lparr>rows := rows busy_world @
           [\<lparr>ID = 2, Fingerprint = ''a1'', Status = ''firing'', Labels = ''null'',
             Annotations = ''null'', StartsAt = 100, EndsAt = 0, CreatedAt = 1700000001\<rparr>],
         next_id := 3, ticks := 2, irmWebhooksAlertmanagerNewTotal := 2\<rparr>"
  let ?wb = "busy_world
        \<lparr>rows := [\<lparr>ID = 1, Fingerprint = ''b7'', Status = ''resolved'', Labels = ''null'',
                   Annotations = ''null'', StartsAt = 40, EndsAt = 77,
                   CreatedAt = 1700000000\<rparr>],
         irmWebhooksAlertmanagerUpdatedTotal := 1\<rparr>"
  let ?wc = "busy_world\<lparr>script := [Healthy, Broken ''deadlock detected'']\<rparr>"
  have a: "process_alert marshal_nil busy_world ?new = (?wa, None)"
    by (simp add: process_alert_def store_defs example_defs numeral_2_eq_2 numeral_3_eq_3)
  have a_raised: "irmWebhooksAlertmanagerNewTotal ?wa =
      irmWebhooksAlertmanagerNewTotal busy_world + 1"
    by (simp add: busy_world_def)
  have "\<exists>w1 w2 w3 now labelsJSON annotationsJSON.
         db_first busy_world (fingerprint ?new) = (ErrRecordNotFound, w1)
       \<and> time_Now w1 = (now, w2)
       \<and> db_create w2
            \<lparr>ID = 0, Fingerprint = fingerprint ?new, Status = status ?new,
             Labels = labelsJSON, Annotations = annotationsJSON,
             StartsAt = startsAt ?new, EndsAt = endsAt ?new, CreatedAt = now\<rparr> = (None, w3)"
    using counters_follow_persistence [OF a] a_raised by blast
  then have a_inserted: "\<exists>w1 w2 w3 now labelsJSON annotationsJSON.
         db_first busy_world ''a1'' = (ErrRecordNotFound, w1)
       \<and> time_Now w1 = (now, w2)
       \<and> db_create w2
            \<lparr>ID = 0, Fingerprint = ''a1'', Status = ''firing'',
             Labels = labelsJSON, Annotations = annotationsJSON,
             StartsAt = 100, EndsAt = 0, CreatedAt = now\<rparr> = (None, w3)"
    by (simp add: bare_alert_def)
  have b: "process_alert marshal_nil busy_world ?upd = (?wb, None)"
    by (simp add: process_alert_def store_defs example_defs)
  have b_raised: "irmWebhooksAlertmanagerUpdatedTotal ?wb =
      irmWebhooksAlertmanagerUpdatedTotal busy_world + 1"
    by (simp add: busy_world_def)
  have "\<exists>w1 w2 existing.
         db_first busy_world (fingerprint ?upd) = (Found existing, w1)
       \<and> db_updates w1 existing (status ?upd) (endsAt ?upd) = (None, w2)"
    using counters_follow_persistence [OF b] b_raised by blast
  then have b_updated: "\<exists>w1 w2 existing.
         db_first busy_world ''b7'' = (Found existing, w1)
       \<and> db_updates w1 existing ''resolved'' 77 = (None, w2)"
    by (simp add: bare_alert_def)
  have c: "process_alert marshal_nil ?wc ?upd =
      (busy_world, Some (500, H_error ''deadlock detected''))"
    by (simp add: process_alert_def store_defs example_defs)
  have "irmWebhooksAlertmanagerNewTotal busy_world = irmWebhooksAlertmanagerNewTotal ?wc
      \<and> irmWebhooksAlertmanagerDuplicateTotal busy_world =
          irmWebhooksAlertmanagerDuplicateTotal ?wc
      \<and> irmWebhooksAlertmanagerUpdatedTotal busy_world =
          irmWebhooksAlertmanagerUpdatedTotal ?wc"
    using counters_follow_persistence [OF c] by blast
  then have c_same: "irmWebhooksAlertmanagerNewTotal busy_world = 1
      \<and> irmWebhooksAlertmanagerDuplicateTotal busy_world = 0
      \<and> irmWebhooksAlertmanagerUpdatedTotal busy_world = 0"
    by (simp add: busy_world_def)
  show ?thesis
    using a a_inserted b b_updated c c_same by blast
qed

section \<open>A failing event ends the batch\<close>

text \<open>
  C1, as stated, does not hold. On an empty table, with a database whose first call fails
  and which is healthy afterwards, the batch of two fresh alerts \<open>a1\<close>, \<open>a2\<close> is
  answered with 500 and the error of the lookup of \<open>a1\<close>; \<open>a2\<close> is never looked up
  or stored (no row, no counter, the rest of the world untouched), although \<open>a2\<close>
  sent alone to the world that is left is stored.
\<close>

theorem batch_ends_at_failure_counterexample:
  "handler marshal_nil (quiet_world\<lparr>script := [Broken ''connection refused'']\<rparr>)
     (Inr \<lparr>alerts = [bare_alert ''a1'' ''firing'' 0, bare_alert ''a2'' ''firing'' 0]\<rparr>) =
     (quiet_world\<lparr>irmWebhooksAlertmanagerTotal := 2\<rparr>,
      (500, H_error ''connection refused''))
   \<and> rows (fst (handler marshal_nil (quiet_world\<lparr>irmWebhooksAlertmanagerTotal := 2\<rparr>)
        (Inr \<lparr>alerts = [bare_alert ''a2'' ''firing'' 0]\<rparr>))) =
       [\<lparr>ID = 1, Fingerprint = ''a2'', Status = ''firing'', Labels = ''null'',
         Annotations = ''null'', StartsAt = 100, EndsAt = 0, CreatedAt = 1700000000\<rparr>]"
  by (simp add: handler_def process_alert_def store_defs example_defs)

lemma step_fails_answer:
  "step_fails marshal w alert msg w' \<Longrightarrow>
     process_alert marshal w alert = (w', Some (StatusInternalServerError, H_error msg))"
  unfolding step_fails_def
  by (auto simp: process_alert_def split: prod.splits)

lemma answer_step_fails:
  assumes "process_alert marshal w alert = (w', Some resp)"
  shows "\<exists>msg. step_fails marshal w alert msg w' \<and>
               resp = (StatusInternalServerError, H_error msg)"
proof -
  obtain res w1 where look: "db_first w (fingerprint alert) = (res, w1)"
    by (cases "db_first w (fingerprint alert)")
  show ?thesis
  proof (cases res)
    case (OtherError err)
    then show ?thesis
      using assms look by (auto simp: process_alert_def step_fails_def)
  next
    case (Found existing)
    then show ?thesis
      using assms look
      by (auto simp: process_alert_def step_fails_def
               split: if_splits prod.splits option.splits)
  next
    case ErrRecordNotFound
    show ?thesis
    proof (cases "marshal (labels alert)")
      case (Inl err)
      then show ?thesis
        using assms look ErrRecordNotFound
        by (auto simp: process_alert_def step_fails_def)
    next
      case labelsJSON: (Inr lj)
      show ?thesis
      proof (cases "marshal (annotations alert)")
        case (Inl err)
        then show ?thesis
          using assms look ErrRecordNotFound labelsJSON
          by (auto simp: process_alert_def step_fails_def)
      next
        case annotationsJSON: (Inr aj)
        obtain e w3 where ins: "db_create (snd (time_Now w1))
            \<lparr>ID = 0, Fingerprint = fingerprint alert, Status = status alert,
             Labels = lj, Annotations = aj,
             StartsAt = startsAt alert, EndsAt = endsAt alert,
             CreatedAt = fst (time_Now w1)\<rparr> = (e, w3)"
          by (cases "db_create (snd (time_Now w1))
            \<lparr>ID = 0, Fingerprint = fingerprint alert, Status = status alert,
             Labels = lj, Annotations = aj,
             StartsAt = startsAt alert, EndsAt = endsAt alert,
             CreatedAt = fst (time_Now w1)\<rparr>")
        show ?thesis
        proof (cases e)
          case None
          then have False
            using assms look ErrRecordNotFound labelsJSON annotationsJSON ins
            by (simp add: process_alert_def split: prod.splits)
          then show ?thesis ..
        next
          case (Some err)
          then have "w' = w3 \<and> resp = (StatusInternalServerError, H_error err)"
            using assms look ErrRecordNotFound labelsJSON annotationsJSON ins
            by (auto simp: process_alert_def split: prod.splits)
          moreover have "step_fails marshal w alert err w3"
            unfolding step_fails_def
            using look ErrRecordNotFound labelsJSON annotationsJSON ins Some by blast
          ultimately show ?thesis by blast
        qed
      qed
    qed
  qed
qed

text \<open>
  C1, amended. When the events before \<open>alert\<close> are processed without error and a step of
  \<open>alert\<close> fails with message \<open>msg\<close> (its lookup with an error other than not-found, the
  serialization of its labels or of its annotations, its insert or its update), the
  handler stops there: the request is answered with status 500 and that message, and
  the world is the one the failing step left, so that whatever follows in the batch has
  no effect at all. What earlier events wrote stays (the rows of the world they left are
  kept), and the failing event is counted under no classification.
\<close>

theorem handler_stops_at_first_failure:
  assumes "process_alerts marshal
             (w\<lparr>irmWebhooksAlertmanagerTotal :=
                  irmWebhooksAlertmanagerTotal w + length (pre @ alert # post)\<rparr>) pre =
             (w1, None)"
    and "step_fails marshal w1 alert msg w2"
  shows "handler marshal w (Inr \<lparr>alerts = pre @ alert # post\<rparr>) =
           (w2, (StatusInternalServerError, H_error msg))
       \<and> rows_kept w1 w2
       \<and> classified w2 = classified w1"
proof -
  have failing: "process_alert marshal w1 alert =
      (w2, Some (StatusInternalServerError, H_error msg))"
    using assms(2) by (rule step_fails_answer)
  have "process_alerts marshal
      (w\<lparr>irmWebhooksAlertmanagerTotal :=
           irmWebhooksAlertmanagerTotal w + length (pre @ alert # post)\<rparr>)
      (pre @ alert # post) = (w2, Some (StatusInternalServerError, H_error msg))"
    using assms(1) failing by (rule process_alerts_stop)
  then have answer: "handler marshal w (Inr \<lparr>alerts = pre @ alert # post\<rparr>) =
      (w2, (StatusInternalServerError, H_error msg))"
    by (simp add: handler_def)
  have kept: "rows_kept w1 w2"
    using process_alert_kept [of w1 marshal alert] failing by simp
  have counted: "classified w2 = classified w1"
    using process_alert_failed_counts [OF failing] by (simp add: classified_def)
  show ?thesis
    using answer kept counted by blast
qed

theorem handler_stops_at_first_failure_witness:
  "snd (handler marshal_nil (busy_world\<lparr>script := [Broken ''connection refused'']\<rparr>)
     (Inr \<lparr>alerts = [bare_alert ''a1'' ''firing'' 0, bare_alert ''a2'' ''firing'' 0]\<rparr>)) =
     (500, H_error ''connection refused'')
   \<and> snd (handler (\<lambda>m. Inl ''json: unsupported type'') busy_world
       (Inr \<lparr>alerts = [bare_alert ''a1'' ''firing'' 0, bare_alert ''a2'' ''firing'' 0]\<rparr>)) =
     (500, H_error ''failed to marshal labels'')
   \<and> snd (handler (\<lambda>m. case m of None \<Rightarrow> Inr ''null''
                               | Some f \<Rightarrow> Inl ''json: unsupported type'') busy_world
       (Inr \<lparr>alerts = [(bare_alert ''a1'' ''firing'' 0)\<lparr>annotations := Some Map.empty\<rparr>,
                        bare_alert ''a2'' ''firing'' 0]\<rparr>)) =
     (500, H_error ''failed to marshal annotations'')
   \<and> snd (handler marshal_nil (busy_world\<lparr>script := [Healthy, Broken ''disk full'']\<rparr>)
       (Inr \<lparr>alerts = [bare_alert ''a1'' ''firing'' 0, bare_alert ''a2'' ''firing'' 0]\<rparr>)) =
     (500, H_error ''disk full'')
   \<and> handler marshal_nil
       (busy_world\<lparr>script := [Healthy, Healthy, Healthy, Broken ''deadlock detected'']\<rparr>)
       (Inr \<lparr>alerts = [bare_alert ''a1'' ''firing'' 0, bare_alert ''b7'' ''resolved'' 77,
                        bare_alert ''a2'' ''firing'' 0]\<rparr>) =
     (busy_world
        \<lparr>rows := rows busy_world @
           [\<lparr>ID = 2, Fingerprint = ''a1'', Status = ''firing'', Labels = ''null'',
             Annotations = ''null'', StartsAt = 100, EndsAt = 0, CreatedAt = 1700000001\<rparr>],
         next_id := 3, ticks := 2,
         irmWebhooksAlertmanagerTotal := 4, irmWebhooksAlertmanagerNewTotal := 2\<rparr>,
      (500, H_error ''deadlock detected''))"
proof -
  let ?a1 = "bare_alert ''a1'' ''firing'' 0"
  let ?a2 = "bare_alert ''a2'' ''firing'' 0"
  let ?b7 = "bare_alert ''b7'' ''resolved'' 77"
  let ?none = "\<lambda>m::string_map. (Inl ''json: unsupported type'' :: string + datatypes_JSON)"
  let ?picky = "\<lambda>m::string_map. case m of None \<Rightarrow> (Inr ''null'' :: string + datatypes_JSON)
                               | Some f \<Rightarrow> Inl ''json: unsupported type''"
  let ?a1' = "?a1\<lparr>annotations := Some Map.empty\<rparr>"

  txt \<open>The lookup fails.\<close>
  let ?W = "busy_world\<lparr>script := [Broken ''connection refused'']\<rparr>"
  let ?Wr = "?W\<lparr>irmWebhooksAlertmanagerTotal :=
      irmWebhooksAlertmanagerTotal ?W + length ([] @ ?a1 # [?a2])\<rparr>"
  have pre1: "process_alerts marshal_nil ?Wr [] = (?Wr, None)"
    by simp
  have fails1: "step_fails marshal_nil ?Wr ?a1 ''connection refused'' (?Wr\<lparr>script := []\<rparr>)"
    by (simp add: step_fails_def store_defs example_defs)
  have one: "snd (handler marshal_nil ?W (Inr \<lparr>alerts = [?a1, ?a2]\<rparr>)) =
      (500, H_error ''connection refused'')"
    using handler_stops_at_first_failure [OF pre1 fails1, THEN conjunct1]
    by (simp add: StatusInternalServerError_def)

  txt \<open>The labels do not serialize.\<close>
  let ?Vr = "busy_world\<lparr>irmWebhooksAlertmanagerTotal :=
      irmWebhooksAlertmanagerTotal busy_world + length ([] @ ?a1 # [?a2])\<rparr>"
  have pre2: "process_alerts ?none ?Vr [] = (?Vr, None)"
    by simp
  have fails2: "step_fails ?none ?Vr ?a1 ''failed to marshal labels'' ?Vr"
    by (simp add: step_fails_def store_defs example_defs)
  have two: "snd (handler ?none busy_world (Inr \<lparr>alerts = [?a1, ?a2]\<rparr>)) =
      (500, H_error ''failed to marshal labels'')"
    using handler_stops_at_first_failure [OF pre2 fails2, THEN conjunct1]
    by (simp add: StatusInternalServerError_def)

  txt \<open>The labels serialize, the annotations do not.\<close>
  let ?Ur = "busy_world\<lparr>irmWebhooksAlertmanagerTotal :=
      irmWebhooksAlertmanagerTotal busy_world + length ([] @ ?a1' # [?a2])\<rparr>"
  have pre3: "process_alerts ?picky ?Ur [] = (?Ur, None)"
    by simp
  have fails3: "step_fails ?picky ?Ur ?a1' ''failed to marshal annotations'' ?Ur"
    by (simp add: step_fails_def store_defs example_defs)
  have three: "snd (handler ?picky busy_world (Inr \<lparr>alerts = [?a1', ?a2]\<rparr>)) =
      (500, H_error ''failed to marshal annotations'')"
    using handler_stops_at_first_failure [OF pre3 fails3, THEN conjunct1]
    by (simp add: StatusInternalServerError_def)

  txt \<open>The insert fails.\<close>
  let ?X = "busy_world\<lparr>script := [Healthy, Broken ''disk full'']\<rparr>"
  let ?Xr = "?X\<lparr>irmWebhooksAlertmanagerTotal :=
      irmWebhooksAlertmanagerTotal ?X + length ([] @ ?a1 # [?a2])\<rparr>"
  have pre4: "process_alerts marshal_nil ?Xr [] = (?Xr, None)"
    by simp
  have fails4: "step_fails marshal_nil ?Xr ?a1 ''disk full''
      (?Xr\<lparr>script := [], ticks := Suc (ticks ?Xr)\<rparr>)"
    by (simp add: step_fails_def store_defs example_defs)
  have four: "snd (handler marshal_nil ?X (Inr \<lparr>alerts = [?a1, ?a2]\<rparr>)) =
      (500, H_error ''disk full'')"
    using handler_stops_at_first_failure [OF pre4 fails4, THEN conjunct1]
    by (simp add: StatusInternalServerError_def)

  txt \<open>After a new alert, the update of a stored one fails.\<close>
  let ?Y = "busy_world\<lparr>script := [Healthy, Healthy, Healthy, Broken ''deadlock detected'']\<rparr>"
  let ?Yr = "?Y\<lparr>irmWebhooksAlertmanagerTotal :=
      irmWebhooksAlertmanagerTotal ?Y + length ([?a1] @ ?b7 # [?a2])\<rparr>"
  let ?Yp = "busy_world
        \<lparr>rows := rows busy_world @
           [\<lparr>ID = 2, Fingerprint = ''a1'', Status = ''firing'', Labels = ''null'',
             Annotations = ''null'', StartsAt = 100, EndsAt = 0, CreatedAt = 1700000001\<rparr>],
         next_id := 3, script := [Healthy, Broken ''deadlock detected''], ticks := 2,
         irmWebhooksAlertmanagerTotal := 4, irmWebhooksAlertmanagerNewTotal := 2\<rparr>"
  have pre5: "process_alerts marshal_nil ?Yr [?a1] = (?Yp, None)"
    by (simp add: process_alert_def store_defs example_defs numeral_2_eq_2 numeral_3_eq_3)
  have fails5: "step_fails marshal_nil ?Yp ?b7 ''deadlock detected'' (?Yp\<lparr>script := []\<rparr>)"
    by (simp add: step_fails_def store_defs example_defs)
  have "handler marshal_nil ?Y (Inr \<lparr>alerts = [?a1] @ ?b7 # [?a2]\<rparr>) =
      (?Yp\<lparr>script := []\<rparr>, (StatusInternalServerError, H_error ''deadlock detected''))"
    using handler_stops_at_first_failure [OF pre5 fails5] by blast
  then have five: "handler marshal_nil ?Y (Inr \<lparr>alerts = [?a1, ?b7, ?a2]\<rparr>) =
      (busy_world
        \<lparr>rows := rows busy_world @
           [\<lparr>ID = 2, Fingerprint = ''a1'', Status = ''firing'', Labels = ''null'',
             Annotations = ''null'', StartsAt = 100, EndsAt = 0, CreatedAt = 1700000001\<rparr>],
         next_id := 3, ticks := 2,
         irmWebhooksAlertmanagerTotal := 4, irmWebhooksAlertmanagerNewTotal := 2\<rparr>,
       (500, H_error ''deadlock detected''))"
    by (simp add: busy_world_def StatusInternalServerError_def)
  show ?thesis
    using one two three four five by blast
qed

section \<open>The answer to a batch\<close>

text \<open>
  C8, as stated, does not hold: the handler returns no sequence of per-event outcomes and
  no counts. A batch of one new alert and a batch of three events that are new, duplicate
  and updated in turn get the very same answer, 200 with
  \<^verbatim>\<open>{"status": "alerts processed"}\<close>.
\<close>

theorem same_answer_for_any_outcomes_counterexample:
  "snd (handler marshal_nil quiet_world (Inr \<lparr>alerts = [bare_alert ''a1'' ''firing'' 0]\<rparr>)) =
     (200, H_status ''alerts processed'')
   \<and> snd (handler marshal_nil quiet_world
         (Inr \<lparr>alerts = [bare_alert ''a1'' ''firing'' 0, bare_alert ''a1'' ''firing'' 0,
                          bare_alert ''a1'' ''resolved'' 5]\<rparr>)) =
     (200, H_status ''alerts processed'')
   \<and> irmWebhooksAlertmanagerNewTotal (fst (handler marshal_nil quiet_world
         (Inr \<lparr>alerts = [bare_alert ''a1'' ''firing'' 0, bare_alert ''a1'' ''firing'' 0,
                          bare_alert ''a1'' ''resolved'' 5]\<rparr>))) = 1
   \<and> irmWebhooksAlertmanagerDuplicateTotal (fst (handler marshal_nil quiet_world
         (Inr \<lparr>alerts = [bare_alert ''a1'' ''firing'' 0, bare_alert ''a1'' ''firing'' 0,
                          bare_alert ''a1'' ''resolved'' 5]\<rparr>))) = 1
   \<and> irmWebhooksAlertmanagerUpdatedTotal (fst (handler marshal_nil quiet_world
         (Inr \<lparr>alerts = [bare_alert ''a1'' ''firing'' 0, bare_alert ''a1'' ''firing'' 0,
                          bare_alert ''a1'' ''resolved'' 5]\<rparr>))) = 1"
  by (simp add: handler_def process_alert_def store_defs example_defs)

lemma in_input_order_start: "in_input_order marshal w0 [] [w0]"
  by (simp add: in_input_order_def)

lemma in_input_order_step:
  assumes "process_alert marshal w0 alert = (w1, None)"
    and "in_input_order marshal w1 events ws"
  shows "in_input_order marshal w0 (alert # events) (w0 # ws)"
proof -
  have len: "length ws = length events + 1" and first: "ws ! 0 = w1"
    and each: "\<forall>i < length events.
        process_alert marshal (ws ! i) (events ! i) = (ws ! Suc i, None)"
    using assms(2) by (simp_all add: in_input_order_def)
  have "process_alert marshal ((w0 # ws) ! i) ((alert # events) ! i) =
      ((w0 # ws) ! Suc i, None)" if "i < length (alert # events)" for i
  proof (cases i)
    case 0
    then show ?thesis using assms(1) first by simp
  next
    case (Suc j)
    then show ?thesis using each that by simp
  qed
  then show ?thesis
    using len by (simp add: in_input_order_def)
qed

lemma in_input_order_last:
  "in_input_order marshal w1 events ws \<Longrightarrow> last (w0 # ws) = last ws"
  by (cases ws) (simp_all add: in_input_order_def)

lemma process_alerts_trace:
  "process_alerts marshal w0 events = (w', resp) \<Longrightarrow>
     (case resp of
        None \<Rightarrow>
          \<exists>ws. in_input_order marshal w0 events ws \<and> last ws = w' \<and>
               classified w' = classified w0 + length events
      | Some r \<Rightarrow>
          \<exists>k ws. k < length events \<and> in_input_order marshal w0 (take k events) ws \<and>
                 process_alert marshal (last ws) (events ! k) = (w', Some r) \<and>
                 classified (last ws) = classified w0 + k)"
proof (induction events arbitrary: w0)
  case Nil
  then show ?case
    using in_input_order_start [of marshal w0] by auto
next
  case (Cons alert rest)
  obtain w1 r1 where step: "process_alert marshal w0 alert = (w1, r1)"
    by (cases "process_alert marshal w0 alert")
  show ?case
  proof (cases r1)
    case (Some r)
    then have "resp = Some r" and "w' = w1"
      using Cons.prems step by simp_all
    moreover have "in_input_order marshal w0 (take 0 (alert # rest)) [w0]"
      by (simp add: in_input_order_start)
    ultimately show ?thesis
      using step Some by (auto intro!: exI [of _ 0] exI [of _ "[w0]"])
  next
    case None
    have one: "classified w1 = classified w0 + 1"
      using process_alert_classified [of marshal w0 alert w1] step None
      by (auto simp: classified_def)
    have rest: "process_alerts marshal w1 rest = (w', resp)"
      using Cons.prems step None by simp
    note IH = Cons.IH [OF rest]
    show ?thesis
    proof (cases resp)
      case passed: None
      then obtain ws where tr: "in_input_order marshal w1 rest ws"
        and fin: "last ws = w'"
        and cnt: "classified w' = classified w1 + length rest"
        using IH by auto
      have "in_input_order marshal w0 (alert # rest) (w0 # ws)"
        using step None tr by (simp add: in_input_order_step)
      moreover have "last (w0 # ws) = w'"
        using in_input_order_last [OF tr] fin by simp
      moreover have "classified w' = classified w0 + length (alert # rest)"
        using cnt one by simp
      ultimately show ?thesis
        using passed by auto
    next
      case failed: (Some r)
      then obtain k ws where k: "k < length rest"
        and tr: "in_input_order marshal w1 (take k rest) ws"
        and fails: "process_alert marshal (last ws) (rest ! k) = (w', Some r)"
        and cnt: "classified (last ws) = classified w1 + k"
        using IH by auto
      have "Suc k < length (alert # rest)"
        using k by simp
      moreover have "in_input_order marshal w0 (take (Suc k) (alert # rest)) (w0 # ws)"
        using step None tr by (simp add: in_input_order_step)
      moreover have "process_alert marshal (last (w0 # ws)) ((alert # rest) ! Suc k) =
          (w', Some r)"
        using in_input_order_last [OF tr] fails by simp
      moreover have "classified (last (w0 # ws)) = classified w0 + Suc k"
        using in_input_order_last [OF tr] cnt one by simp
      ultimately show ?thesis
        using failed by (auto intro!: exI [of _ "Suc k"] exI [of _ "w0 # ws"])
    qed
  qed
qed

text \<open>
  C8, amended. The handler gives one answer for the whole batch, not a sequence of
  per-event outcomes. A body that does not bind is answered with 400 and the binding
  error, and nothing happens. For a batch that binds, the events are processed one
  after the other in input order, starting from the world with the received counter
  raised, and one of two things happens. Either every event is processed without error:
  then the answer is 200 with \<^verbatim>\<open>{"status": "alerts processed"}\<close>, the world is the one
  the last event left, and the three classification counters together have grown by the
  length of the batch. Or some event \<open>k\<close> is the first with a failing step, the events
  before it having been processed without error: then the answer is 500 with the message
  of that failing step, the world is the one that step left, and the classification
  counters together have grown by \<open>k\<close>, the number of events before it. The counts of
  the outcomes exist only as these process-wide counters.
\<close>

theorem handler_answers_once:
  "handler marshal w (Inl bind_error) = (w, (StatusBadRequest, H_error bind_error))
   \<and> ((\<exists>ws. in_input_order marshal
               (w\<lparr>irmWebhooksAlertmanagerTotal :=
                    irmWebhooksAlertmanagerTotal w + length (alerts webhook)\<rparr>)
               (alerts webhook) ws
           \<and> handler marshal w (Inr webhook) =
               (last ws, (StatusOK, H_status ''alerts processed''))
           \<and> classified (last ws) = classified w + length (alerts webhook))
      \<or> (\<exists>k ws msg w'.
             k < length (alerts webhook)
           \<and> in_input_order marshal
               (w\<lparr>irmWebhooksAlertmanagerTotal :=
                    irmWebhooksAlertmanagerTotal w + length (alerts webhook)\<rparr>)
               (take k (alerts webhook)) ws
           \<and> step_fails marshal (last ws) (alerts webhook ! k) msg w'
           \<and> handler marshal w (Inr webhook) =
               (w', (StatusInternalServerError, H_error msg))
           \<and> classified w' = classified w + k))"
proof
  show "handler marshal w (Inl bind_error) = (w, (StatusBadRequest, H_error bind_error))"
    by (simp add: handler_def)
next
  let ?w0 = "w\<lparr>irmWebhooksAlertmanagerTotal :=
                  irmWebhooksAlertmanagerTotal w + length (alerts webhook)\<rparr>"
  obtain w' resp where run: "process_alerts marshal ?w0 (alerts webhook) = (w', resp)"
    by (cases "process_alerts marshal ?w0 (alerts webhook)")
  have start: "classified ?w0 = classified w"
    by (simp add: classified_def)
  note trace = process_alerts_trace [OF run]
  show "(\<exists>ws. in_input_order marshal ?w0 (alerts webhook) ws
           \<and> handler marshal w (Inr webhook) =
               (last ws, (StatusOK, H_status ''alerts processed''))
           \<and> classified (last ws) = classified w + length (alerts webhook))
      \<or> (\<exists>k ws msg w'.
             k < length (alerts webhook)
           \<and> in_input_order marshal ?w0 (take k (alerts webhook)) ws
           \<and> step_fails marshal (last ws) (alerts webhook ! k) msg w'
           \<and> handler marshal w (Inr webhook) =
               (w', (StatusInternalServerError, H_error msg))
           \<and> classified w' = classified w + k)"
  proof (cases resp)
    case None
    then obtain ws where tr: "in_input_order marshal ?w0 (alerts webhook) ws"
      and fin: "last ws = w'"
      and cnt: "classified w' = classified ?w0 + length (alerts webhook)"
      using trace by auto
    have "handler marshal w (Inr webhook) =
        (last ws, (StatusOK, H_status ''alerts processed''))"
      using run None fin by (simp add: handler_def)
    moreover have "classified (last ws) = classified w + length (alerts webhook)"
      using cnt fin start by simp
    ultimately show ?thesis
      using tr by blast
  next
    case (Some r)
    then obtain k ws where k: "k < length (alerts webhook)"
      and tr: "in_input_order marshal ?w0 (take k (alerts webhook)) ws"
      and fails: "process_alert marshal (last ws) (alerts webhook ! k) = (w', Some r)"
      and cnt: "classified (last ws) = classified ?w0 + k"
      using trace by auto
    obtain msg where step: "step_fails marshal (last ws) (alerts webhook ! k) msg w'"
      and r: "r = (StatusInternalServerError, H_error msg)"
      using answer_step_fails [OF fails] by blast
    have "handler marshal w (Inr webhook) =
        (w', (StatusInternalServerError, H_error msg))"
      using run Some r by (simp add: handler_def)
    moreover have "classified w' = classified w + k"
      using process_alert_failed_counts [OF fails] cnt start by (simp add: classified_def)
    ultimately show ?thesis
      using k tr step by blast
  qed
qed

theorem handler_answers_once_witness:
  "handler marshal_nil
     (quiet_world
        \<lparr>script := [Healthy, Healthy, Healthy, Healthy, Broken ''too many connections'']\<rparr>)
     (Inr \<lparr>alerts = [bare_alert ''a1'' ''firing'' 0, bare_alert ''a1'' ''firing'' 0,
                      bare_alert ''a1'' ''resolved'' 5]\<rparr>) =
     (quiet_world
        \<lparr>rows := [\<lparr>ID = 1, Fingerprint = ''a1'', Status = ''firing'', Labels = ''null'',
                   Annotations = ''null'', StartsAt = 100, EndsAt = 0,
                   CreatedAt = 1700000000\<rparr>],
         next_id := 2, ticks := 1,
         irmWebhooksAlertmanagerTotal := 3, irmWebhooksAlertmanagerNewTotal := 1,
         irmWebhooksAlertmanagerDuplicateTotal := 1\<rparr>,
      (500, H_error ''too many connections''))
   \<and> (\<exists>k. k < 3 \<and>
         classified
           (quiet_world
              \<lparr>rows := [\<lparr>ID = 1, Fingerprint = ''a1'', Status = ''firing'',
                         Labels = ''null'', Annotations = ''null'', StartsAt = 100,
                         EndsAt = 0, CreatedAt = 1700000000\<rparr>],
               next_id := 2, ticks := 1,
               irmWebhooksAlertmanagerTotal := 3, irmWebhooksAlertmanagerNewTotal := 1,
               irmWebhooksAlertmanagerDuplicateTotal := 1\<rparr>) =
         classified quiet_world + k)
   \<and> snd (handler marshal_nil quiet_world
         (Inr \<lparr>alerts = [bare_alert ''a1'' ''firing'' 0,
                          bare_alert ''a1'' ''resolved'' 5]\<rparr>)) =
       (200, H_status ''alerts processed'')
   \<and> classified (fst (handler marshal_nil quiet_world
         (Inr \<lparr>alerts = [bare_alert ''a1'' ''firing'' 0,
                          bare_alert ''a1'' ''resolved'' 5]\<rparr>))) = 2"
proof -
  let ?W = "quiet_world
      \<lparr>script := [Healthy, Healthy, Healthy, Healthy, Broken ''too many connections'']\<rparr>"
  let ?B = "\<lparr>alerts = [bare_alert ''a1'' ''firing'' 0, bare_alert ''a1'' ''firing'' 0,
                      bare_alert ''a1'' ''resolved'' 5]\<rparr>"
  let ?F = "quiet_world
        \<lparr>rows := [\<lparr>ID = 1, Fingerprint = ''a1'', Status = ''firing'', Labels = ''null'',
                   Annotations = ''null'', StartsAt = 100, EndsAt = 0,
                   CreatedAt = 1700000000\<rparr>],
         next_id := 2, ticks := 1,
         irmWebhooksAlertmanagerTotal := 3, irmWebhooksAlertmanagerNewTotal := 1,
         irmWebhooksAlertmanagerDuplicateTotal := 1\<rparr>"
  let ?C = "\<lparr>alerts = [bare_alert ''a1'' ''firing'' 0, bare_alert ''a1'' ''resolved'' 5]\<rparr>"
  have refused: "handler marshal_nil ?W (Inr ?B) =
      (?F, (500, H_error ''too many connections''))"
    by (simp add: handler_def process_alert_def store_defs example_defs)
  have shape: "(\<exists>ws. handler marshal_nil ?W (Inr ?B) =
          (last ws, (StatusOK, H_status ''alerts processed'')))
      \<or> (\<exists>k msg w'. k < length (alerts ?B)
          \<and> handler marshal_nil ?W (Inr ?B) =
              (w', (StatusInternalServerError, H_error msg))
          \<and> classified w' = classified ?W + k)"
    using handler_answers_once [of marshal_nil ?W "[]" ?B, THEN conjunct2] by blast
  have "\<exists>k. k < length (alerts ?B) \<and> classified ?F = classified ?W + k"
    using shape unfolding refused
    by (auto simp: StatusOK_def StatusInternalServerError_def)
  then have counted: "\<exists>k. k < 3 \<and> classified ?F = classified quiet_world + k"
    by (simp add: classified_def quiet_world_def)
  have accepted: "snd (handler marshal_nil quiet_world (Inr ?C)) =
      (200, H_status ''alerts processed'')"
    by (simp add: handler_def process_alert_def store_defs example_defs)
  have shape': "(\<exists>ws. handler marshal_nil quiet_world (Inr ?C) =
          (last ws, (StatusOK, H_status ''alerts processed''))
          \<and> classified (last ws) = classified quiet_world + length (alerts ?C))
      \<or> (\<exists>msg w'. handler marshal_nil quiet_world (Inr ?C) =
              (w', (StatusInternalServerError, H_error msg)))"
    using handler_answers_once [of marshal_nil quiet_world "[]" ?C, THEN conjunct2] by blast
  have "classified (fst (handler marshal_nil quiet_world (Inr ?C))) =
      classified quiet_world + length (alerts ?C)"
    using shape' accepted
    by (auto simp: StatusOK_def StatusInternalServerError_def)
  then have all: "classified (fst (handler marshal_nil quiet_world (Inr ?C))) = 2"
    by (simp add: classified_def quiet_world_def)
  show ?thesis
    using refused counted accepted all by blast
qed

end
